theory Spec2Isabelle
  imports Main "HOL-Library.Word" "HOL-Library.AList"
begin

section \<open>Values, destinations and errors\<close>

text \<open>
  The two Go packages verified here are \<^verbatim>\<open>go/vt/vtgate/planbuilder\<close> (file
  \<^verbatim>\<open>update.go\<close>) and \<^verbatim>\<open>go/vt/worker\<close> (file \<^verbatim>\<open>key_resolver.go\<close>).
  Go struct fields live in one name space per struct; record fields in HOL are global, so
  every field is written \<open>Struct_Field\<close>.
\<close>

type_synonym byte = "8 word"

text \<open>\<^verbatim>\<open>sqltypes.Value\<close>: a type tag and the raw bytes.\<close>

datatype SqlType = Null_type | Int64 | Uint64 | VarBinary | VarChar | Expression

record Value =
  Value_typ :: SqlType
  Value_val :: "byte list"

text \<open>
  \<^verbatim>\<open>sqltypes.PlanValue\<close>: a bind-variable name (\<open>Key\<close>) or a literal (\<open>Value\<close>);
  the list forms are not produced by the code modelled here.
\<close>

record PlanValue =
  PlanValue_Key :: string
  PlanValue_Value :: "Value option"

text \<open>\<^verbatim>\<open>key.Destination\<close>: the tagged result of a vindex mapping.\<close>

datatype Destination =
    DestinationKeyspaceID "byte list"
  | DestinationKeyspaceIDs "byte list list"
  | DestinationNone
  | DestinationAllShards
  | DestinationShard string

text \<open>\<^verbatim>\<open>topodatapb.KeyspaceIdType\<close>: a protobuf enum, so any number can occur.\<close>

datatype KeyspaceIdType = UNSET | UINT64 | BYTES | KeyspaceIdType_other nat

text \<open>
  Every error value the two files build, with the data its message prints. \<open>ErrExternal\<close>
  stands for an error made by a function outside the two files and handed on unchanged.
\<close>

datatype error =
    ErrExternal string
  | ErrMultiTableUpdate
  | ErrTargetDestination
  | ErrShardedSubqueriesInDML
  | ErrSubqueriesInShardedDML
  | ErrVindexTableNil
  | ErrDuplicateSetValues string
  | ErrNotAllColumns string
  | ErrNeedOrderBy string
  | ErrPrimaryVindex string
  | ErrOnlyLookupVindexes string
  | ErrOnlyOwnedVindexes string
  | ErrOnlyValues string
  | errV2unsupported
  | ErrShardingColumnNameUnset
  | ErrShardingColumnTypeUnset
  | ErrNotBaseTable string
  | ErrNoSuchColumn string string
  | ErrWrap error string
  | ErrUnsupportedShardingColumnType KeyspaceIdType
  | ErrNoVSchemaTable string
  | ErrUnknownVindexColumn string string
  | ErrInvalidKeyspaceIds "Destination list"
  | ErrCouldNotMap Value Destination
  | ErrCouldNotParse Value

section \<open>The statement and the schema (packages sqlparser, vindexes, engine)\<close>

text \<open>
  The part of the \<^verbatim>\<open>sqlparser\<close> syntax tree that \<^verbatim>\<open>update.go\<close> looks at.
  An \<^verbatim>\<open>SQLVal\<close> carries its kind and its text.
\<close>

datatype ValType = StrVal | IntVal | FloatVal | HexNum | HexVal | ValArg | BitVal

datatype Expr =
    SQLVal ValType string
  | NullVal
  | ColName string
  | BinaryExpr string Expr Expr
  | FuncExpr string "Expr list"
  | ValTuple "Expr list"
  | Subquery string

type_synonym ColIdent = string

text \<open>\<^verbatim>\<open>sqlparser.UpdateExpr\<close>; \<open>UpdateExpr_Name\<close> is \<^verbatim>\<open>assignment.Name.Name\<close>.\<close>

record UpdateExpr =
  UpdateExpr_Name :: ColIdent
  UpdateExpr_Expr :: Expr

datatype TableExpr = AliasedTableExpr string | JoinTableExpr TableExpr TableExpr

record Limit =
  Limit_Offset :: "Expr option"
  Limit_Rowcount :: Expr

text \<open>\<^verbatim>\<open>sqlparser.Update\<close>; a nil \<^verbatim>\<open>Where\<close> or \<^verbatim>\<open>Limit\<close> is \<open>None\<close>.\<close>

record Update =
  Update_TableExprs :: "TableExpr list"
  Update_Exprs :: "UpdateExpr list"
  Update_Where :: "Expr option"
  Update_OrderBy :: "(Expr \<times> string) list"
  Update_Limit :: "Limit option"

text \<open>
  \<^verbatim>\<open>vindexes.Vindex\<close> is an interface. \<open>Vindex_isLookup\<close> says whether the value
  behind it also implements \<^verbatim>\<open>vindexes.Lookup\<close> (the type assertion of
  \<^verbatim>\<open>buildChangedVindexesValues\<close>); \<open>Vindex_Map\<close> is its \<^verbatim>\<open>Map\<close> method
  called with a nil cursor.
\<close>

record Vindex =
  Vindex_String :: string
  Vindex_isLookup :: bool
  Vindex_Map :: "Value list \<Rightarrow> error + Destination list"

record ColumnVindex =
  ColumnVindex_Columns :: "ColIdent list"
  ColumnVindex_Name :: string
  ColumnVindex_Owned :: bool
  ColumnVindex_Vindex :: Vindex

record Keyspace =
  Keyspace_Name :: string
  Keyspace_Sharded :: bool

record Table =
  Table_Name :: string
  Table_ColumnVindexes :: "ColumnVindex list"
  Table_Owned :: "ColumnVindex list"

datatype UpdateOpcode = UpdateUnsharded | UpdateEqual

text \<open>
  \<^verbatim>\<open>engine.Update\<close>. The Go map \<^verbatim>\<open>ChangedVindexValues\<close> is an association
  list with distinct keys, written with \<open>AList.update\<close>; its \<^verbatim>\<open>len\<close> is the
  length of the list.
\<close>

record engine_Update =
  eupd_Opcode :: UpdateOpcode
  eupd_Keyspace :: "Keyspace option"
  eupd_Query :: string
  eupd_Vindex :: "Vindex option"
  eupd_Values :: "PlanValue list"
  eupd_ChangedVindexValues :: "(string \<times> PlanValue list) list"
  eupd_Table :: "Table option"
  eupd_OwnedVindexQuery :: string

text \<open>
  What \<^verbatim>\<open>processTableExprs\<close> returns: a \<^verbatim>\<open>*route\<close> or some other builder.
  Of the route, \<^verbatim>\<open>update.go\<close> reads \<^verbatim>\<open>ERoute.TargetDestination\<close>,
  \<^verbatim>\<open>ERoute.Keyspace\<close> and the tables of its symbol table, each with a
  \<^verbatim>\<open>vindexTable\<close> pointer.
\<close>

record ERoute =
  ERoute_TargetDestination :: "Destination option"
  ERoute_Keyspace :: Keyspace

record symtab_table =
  table_vindexTable :: "Table option"

record route =
  route_ERoute :: ERoute
  route_Symtab_tables :: "symtab_table list"

datatype builder = RouteBuilder route | OtherBuilder

text \<open>
  Functions of the repository that \<^verbatim>\<open>update.go\<close> calls and that live in other
  files (\<^verbatim>\<open>generateQuery\<close>, \<^verbatim>\<open>processTableExprs\<close>,
  \<^verbatim>\<open>validateSubquerySamePlan\<close>, \<^verbatim>\<open>hasSubquery\<close>, \<^verbatim>\<open>getDMLRouting\<close>,
  \<^verbatim>\<open>ColIdent.Equal\<close>, \<^verbatim>\<open>sqlparser.NewPlanValue\<close> and the \<^verbatim>\<open>%v\<close>
  formatters of the syntax tree) are parameters: every theorem holds for whatever they
  compute. \<open>'v\<close> is the \<^verbatim>\<open>VSchema\<close> handed through to them.
\<close>

record 'v planner_env =
  generateQuery :: "Update \<Rightarrow> string"
  processTableExprs :: "TableExpr list \<Rightarrow> 'v \<Rightarrow> error + builder"
  validateSubquerySamePlan ::
    "string \<Rightarrow> route \<Rightarrow> 'v \<Rightarrow> UpdateExpr list \<Rightarrow> Expr option \<Rightarrow> (Expr \<times> string) list
      \<Rightarrow> Limit option \<Rightarrow> bool"
  hasSubquery :: "Update \<Rightarrow> bool"
  getDMLRouting :: "Expr option \<Rightarrow> Table \<Rightarrow> error + (Vindex \<times> PlanValue list)"
  ColIdent_Equal :: "ColIdent \<Rightarrow> ColIdent \<Rightarrow> bool"
  NewPlanValue :: "Expr \<Rightarrow> error + PlanValue"
  format_ColIdent :: "ColIdent \<Rightarrow> string"
  format_TableName :: "string \<Rightarrow> string"
  format_Where :: "Expr option \<Rightarrow> string"
  format_OrderBy :: "(Expr \<times> string) list \<Rightarrow> string"
  format_Limit :: "Limit option \<Rightarrow> string"

section \<open>update.go\<close>

text \<open>
  Modelled from the spec: \<^verbatim>\<open>sqlparser.IsValue\<close> is not in the source files at hand.
  The spec (4.1.3) accepts "a literal value (string/hex/integer) or a bind-variable
  placeholder", and the comment above \<^verbatim>\<open>extractValueFromUpdate\<close> lists the same four
  kinds: StrVal, HexVal, IntVal, ValArg.
\<close>

fun IsValue :: "Expr \<Rightarrow> bool" where
  "IsValue (SQLVal StrVal _) = True"
| "IsValue (SQLVal HexVal _) = True"
| "IsValue (SQLVal IntVal _) = True"
| "IsValue (SQLVal ValArg _) = True"
| "IsValue _ = False"

text \<open>\<^verbatim>\<open>extractValueFromUpdate\<close> (update.go, lines 158-164).\<close>

definition extractValueFromUpdate ::
  "'v planner_env \<Rightarrow> UpdateExpr \<Rightarrow> ColIdent \<Rightarrow> error + PlanValue" where
  "extractValueFromUpdate env upd col =
     (if \<not> IsValue (UpdateExpr_Expr upd) then Inl (ErrOnlyValues (UpdateExpr_Name upd))
      else NewPlanValue env (UpdateExpr_Expr upd))"

text \<open>
  The innermost loop of \<^verbatim>\<open>buildChangedVindexesValues\<close> (lines 98-111): one pass over
  the SET list for the vindex column \<open>vcol\<close>. The state is the flag \<^verbatim>\<open>found\<close> and
  the slice \<^verbatim>\<open>vindexValues\<close>.
\<close>

fun scanAssignments ::
  "'v planner_env \<Rightarrow> ColIdent \<Rightarrow> UpdateExpr list \<Rightarrow> bool \<Rightarrow> PlanValue list
    \<Rightarrow> error + (bool \<times> PlanValue list)" where
  "scanAssignments env vcol [] found vindexValues = Inr (found, vindexValues)"
| "scanAssignments env vcol (assignment # rest) found vindexValues =
     (if \<not> ColIdent_Equal env vcol (UpdateExpr_Name assignment)
      then scanAssignments env vcol rest found vindexValues
      else if found then Inl (ErrDuplicateSetValues (UpdateExpr_Name assignment))
      else (case extractValueFromUpdate env assignment vcol of
              Inl err \<Rightarrow> Inl err
            | Inr pv \<Rightarrow> scanAssignments env vcol rest True (vindexValues @ [pv])))"

text \<open>
  The loop over \<^verbatim>\<open>vindex.Columns\<close> (lines 95-112): \<^verbatim>\<open>found\<close> starts false for
  each column, \<^verbatim>\<open>vindexValues\<close> is carried on.
\<close>

fun scanColumns ::
  "'v planner_env \<Rightarrow> ColIdent list \<Rightarrow> UpdateExpr list \<Rightarrow> PlanValue list
    \<Rightarrow> error + PlanValue list" where
  "scanColumns env [] exprs vindexValues = Inr vindexValues"
| "scanColumns env (vcol # vcols) exprs vindexValues =
     (case scanAssignments env vcol exprs False vindexValues of
        Inl err \<Rightarrow> Inl err
      | Inr (found, vindexValues') \<Rightarrow> scanColumns env vcols exprs vindexValues')"

text \<open>
  The loop over \<^verbatim>\<open>colVindexes\<close> (lines 93-134), from index \<open>i\<close> on, with the map
  \<^verbatim>\<open>changedVindexes\<close> built so far.
\<close>

fun changedVindexesLoop ::
  "'v planner_env \<Rightarrow> Update \<Rightarrow> nat \<Rightarrow> ColumnVindex list \<Rightarrow> (string \<times> PlanValue list) list
    \<Rightarrow> error + (string \<times> PlanValue list) list" where
  "changedVindexesLoop env update i [] changedVindexes = Inr changedVindexes"
| "changedVindexesLoop env update i (vindex # rest) changedVindexes =
     (case scanColumns env (ColumnVindex_Columns vindex) (Update_Exprs update) [] of
        Inl err \<Rightarrow> Inl err
      | Inr vindexValues \<Rightarrow>
          if length vindexValues = 0
          then changedVindexesLoop env update (i + 1) rest changedVindexes
          else if length vindexValues \<noteq> length (ColumnVindex_Columns vindex)
          then Inl (ErrNotAllColumns (ColumnVindex_Name vindex))
          else if Update_Limit update \<noteq> None \<and> length (Update_OrderBy update) = 0
          then Inl (ErrNeedOrderBy (ColumnVindex_Name vindex))
          else if i = 0
          then Inl (ErrPrimaryVindex (ColumnVindex_Name vindex))
          else if \<not> Vindex_isLookup (ColumnVindex_Vindex vindex)
          then Inl (ErrOnlyLookupVindexes (ColumnVindex_Name vindex))
          else if \<not> ColumnVindex_Owned vindex
          then Inl (ErrOnlyOwnedVindexes (ColumnVindex_Name vindex))
          else changedVindexesLoop env update (i + 1) rest
                 (AList.update (ColumnVindex_Name vindex) vindexValues changedVindexes))"

text \<open>\<^verbatim>\<open>buildChangedVindexesValues\<close> (lines 91-137); \<^verbatim>\<open>eupd\<close> is not read.\<close>

definition buildChangedVindexesValues ::
  "'v planner_env \<Rightarrow> engine_Update \<Rightarrow> Update \<Rightarrow> ColumnVindex list
    \<Rightarrow> error + (string \<times> PlanValue list) list" where
  "buildChangedVindexesValues env eupd update colVindexes =
     changedVindexesLoop env update 0 colVindexes []"

text \<open>
  \<^verbatim>\<open>generateUpdateSubquery\<close> (lines 139-153). The buffer is a string that each
  \<^verbatim>\<open>Myprintf\<close> extends; \<open>writeColumns\<close> is the inner loop over \<^verbatim>\<open>cv.Columns\<close>
  from index \<open>cIdx\<close>, \<open>writeOwned\<close> the outer loop over \<^verbatim>\<open>table.Owned\<close> from
  index \<open>vIdx\<close>.
\<close>

fun writeColumns :: "'v planner_env \<Rightarrow> nat \<Rightarrow> nat \<Rightarrow> ColIdent list \<Rightarrow> string \<Rightarrow> string" where
  "writeColumns env vIdx cIdx [] buf = buf"
| "writeColumns env vIdx cIdx (column # rest) buf =
     writeColumns env vIdx (cIdx + 1) rest
       (if cIdx = 0 \<and> vIdx = 0 then buf @ format_ColIdent env column
        else buf @ '', '' @ format_ColIdent env column)"

fun writeOwned :: "'v planner_env \<Rightarrow> nat \<Rightarrow> ColumnVindex list \<Rightarrow> string \<Rightarrow> string" where
  "writeOwned env vIdx [] buf = buf"
| "writeOwned env vIdx (cv # rest) buf =
     writeOwned env (vIdx + 1) rest (writeColumns env vIdx 0 (ColumnVindex_Columns cv) buf)"

definition generateUpdateSubquery :: "'v planner_env \<Rightarrow> Update \<Rightarrow> Table \<Rightarrow> string" where
  "generateUpdateSubquery env upd table =
     writeOwned env 0 (Table_Owned table) ''select ''
       @ '' from '' @ format_TableName env (Table_Name table)
       @ format_Where env (Update_Where upd)
       @ format_OrderBy env (Update_OrderBy upd)
       @ format_Limit env (Update_Limit upd)
       @ '' for update''"

text \<open>
  The loop of lines 66-68 over the tables of the symbol table: the variable keeps the
  \<^verbatim>\<open>vindexTable\<close> of the last table visited (there is exactly one when it runs).
\<close>

fun lastVindexTable :: "symtab_table list \<Rightarrow> Table option \<Rightarrow> Table option" where
  "lastVindexTable [] vindexTable = vindexTable"
| "lastVindexTable (tval # rest) vindexTable = lastVindexTable rest (table_vindexTable tval)"

text \<open>\<^verbatim>\<open>buildUpdatePlan\<close> (lines 32-86).\<close>

definition buildUpdatePlan :: "'v planner_env \<Rightarrow> Update \<Rightarrow> 'v \<Rightarrow> error + engine_Update" where
  "buildUpdatePlan env upd vschema =
     (let eupd = \<lparr> eupd_Opcode = UpdateUnsharded, eupd_Keyspace = None,
                   eupd_Query = generateQuery env upd, eupd_Vindex = None, eupd_Values = [],
                   eupd_ChangedVindexValues = [], eupd_Table = None,
                   eupd_OwnedVindexQuery = [] \<rparr>
      in case processTableExprs env (Update_TableExprs upd) vschema of
           Inl err \<Rightarrow> Inl err
         | Inr OtherBuilder \<Rightarrow> Inl ErrMultiTableUpdate
         | Inr (RouteBuilder rb) \<Rightarrow>
             if ERoute_TargetDestination (route_ERoute rb) \<noteq> None then Inl ErrTargetDestination
             else
               let ks = ERoute_Keyspace (route_ERoute rb);
                   eupd = eupd \<lparr> eupd_Keyspace := Some ks \<rparr>
               in if \<not> Keyspace_Sharded ks then
                    if \<not> validateSubquerySamePlan env (Keyspace_Name ks) rb vschema
                           (Update_Exprs upd) (Update_Where upd) (Update_OrderBy upd)
                           (Update_Limit upd)
                    then Inl ErrShardedSubqueriesInDML
                    else Inr (eupd \<lparr> eupd_Opcode := UpdateUnsharded \<rparr>)
                  else if hasSubquery env upd then Inl ErrSubqueriesInShardedDML
                  else if length (route_Symtab_tables rb) \<noteq> 1 then Inl ErrMultiTableUpdate
                  else
                    (case lastVindexTable (route_Symtab_tables rb) None of
                       None \<Rightarrow> Inl ErrVindexTableNil
                     | Some table \<Rightarrow>
                         (case getDMLRouting env (Update_Where upd) table of
                            Inl err \<Rightarrow> Inl err
                          | Inr (vindex, values) \<Rightarrow>
                              let eupd = eupd \<lparr> eupd_Table := Some table,
                                                eupd_Vindex := Some vindex,
                                                eupd_Values := values,
                                                eupd_Opcode := UpdateEqual \<rparr>
                              in (case buildChangedVindexesValues env eupd upd
                                         (Table_ColumnVindexes table) of
                                    Inl err \<Rightarrow> Inl err
                                  | Inr changed \<Rightarrow>
                                      let eupd = eupd \<lparr> eupd_ChangedVindexValues := changed \<rparr>
                                      in if length changed \<noteq> 0
                                         then Inr (eupd \<lparr> eupd_OwnedVindexQuery :=
                                                     generateUpdateSubquery env upd table \<rparr>)
                                         else Inr eupd))))"

section \<open>key_resolver.go\<close>

text \<open>
  A Go function of this file ends in one of three ways: it returns a result, it returns an
  error value, or it panics (a failed index or nil dereference of the runtime, or an
  explicit \<^verbatim>\<open>panic\<close>). The last two are the two kinds of \<open>failure\<close>.
\<close>

datatype panic = NilDereference | IndexOutOfRange | PanicMessage string

datatype failure = Error error | Panic panic

text \<open>\<^verbatim>\<open>errV2unsupported.Error()\<close>, the text given to \<^verbatim>\<open>errors.New\<close> on line 58.\<close>

definition errV2unsupported_Error :: string where
  "errV2unsupported_Error = ''Should debug unsupported for v2''"

record KeyspaceInfo =
  KeyspaceInfo_ShardingColumnName :: string
  KeyspaceInfo_ShardingColumnType :: KeyspaceIdType

record TableDefinition =
  TableDefinition_Name :: string
  TableDefinition_Type :: string
  TableDefinition_Columns :: "string list"
  TableDefinition_PrimaryKeyColumns :: "string list"

record KeyspaceSchema =
  KeyspaceSchema_Tables :: "string \<Rightarrow> Table option"

text \<open>
  Functions of other packages that the constructors call (\<^verbatim>\<open>tmutils.TableDefinitionGetColumn\<close>,
  \<^verbatim>\<open>vindexes.FindVindexForSharding\<close>, \<^verbatim>\<open>ColIdent.EqualString\<close>,
  \<^verbatim>\<open>ColIdent.String\<close>) and the constant \<^verbatim>\<open>tmutils.TableBaseTable\<close> are
  parameters. So is \<^verbatim>\<open>debugTable\<close>, a function of the package that is not in
  \<^verbatim>\<open>key_resolver.go\<close>: it is handed a pointer to a table definition (\<open>None\<close> is
  nil) and returns a boolean or panics; nothing more is assumed of it.
\<close>

record resolver_env =
  TableBaseTable :: string
  TableDefinitionGetColumn :: "TableDefinition \<Rightarrow> string \<Rightarrow> int \<times> bool"
  FindVindexForSharding :: "string \<Rightarrow> ColumnVindex list \<Rightarrow> error + ColumnVindex"
  ColIdent_EqualString :: "ColIdent \<Rightarrow> string \<Rightarrow> bool"
  ColIdent_String :: "ColIdent \<Rightarrow> string"
  debugTable :: "TableDefinition option \<Rightarrow> panic + bool"

text \<open>\<^verbatim>\<open>row[i]\<close> for a Go \<^verbatim>\<open>int\<close> index: the runtime panics outside the slice.\<close>

definition index_row :: "Value list \<Rightarrow> int \<Rightarrow> failure + Value" where
  "index_row row i =
     (if 0 \<le> i \<and> i < int (length row) then Inr (row ! nat i) else Inl (Panic IndexOutOfRange))"

subsection \<open>The fixed-column resolver (v2)\<close>

record v2Resolver =
  v2_keyspaceInfo :: KeyspaceInfo
  v2_shardingColumnIndex :: int

definition v2_shouldDebug :: "v2Resolver \<Rightarrow> failure + bool" where
  "v2_shouldDebug r = Inl (Error errV2unsupported)"

definition v2_primaryColumns :: "v2Resolver \<Rightarrow> failure + string list" where
  "v2_primaryColumns r = Inl (Panic (PanicMessage errV2unsupported_Error))"

definition v2_primaryIndexes :: "v2Resolver \<Rightarrow> failure + int list" where
  "v2_primaryIndexes r = Inl (Panic (PanicMessage errV2unsupported_Error))"

text \<open>
  Modelled from the spec: \<^verbatim>\<open>sqltypes.Value.ToBytes\<close> is not in the source files at
  hand. Spec 4.2: for the declared type "bytes" the resolver "returns the raw bytes".
\<close>

definition ToBytes :: "Value \<Rightarrow> byte list" where
  "ToBytes v = Value_val v"

text \<open>
  Modelled from the spec: \<^verbatim>\<open>sqltypes.ToUint64\<close> is not in the source files at hand.
  Spec 4.2: it "parses the value as an unsigned 64-bit integer (fail on non-numeric
  content)". The value's bytes are read as ASCII decimal digits; no digit at all, any
  other byte, or a number of \<open>2^64\<close> or more is a failure.
\<close>

fun parseDigits :: "byte list \<Rightarrow> nat \<Rightarrow> nat option" where
  "parseDigits [] acc = Some acc"
| "parseDigits (b # bs) acc =
     (if 48 \<le> unat b \<and> unat b \<le> 57 then parseDigits bs (acc * 10 + (unat b - 48)) else None)"

definition ToUint64 :: "Value \<Rightarrow> error + 64 word" where
  "ToUint64 v =
     (if Value_val v = [] then Inl (ErrCouldNotParse v)
      else (case parseDigits (Value_val v) 0 of
              None \<Rightarrow> Inl (ErrCouldNotParse v)
            | Some n \<Rightarrow> if n < 2 ^ 64 then Inr (word_of_nat n) else Inl (ErrCouldNotParse v)))"

text \<open>
  Modelled from the spec: \<^verbatim>\<open>key.Uint64Key.Bytes\<close> is not in the source files at hand.
  Spec 4.2: it "encodes it as a fixed-width big-endian byte sequence": eight bytes, the
  most significant first.
\<close>

definition Uint64Key_Bytes :: "64 word \<Rightarrow> byte list" where
  "Uint64Key_Bytes i =
     [ucast (drop_bit 56 i), ucast (drop_bit 48 i), ucast (drop_bit 40 i), ucast (drop_bit 32 i),
      ucast (drop_bit 24 i), ucast (drop_bit 16 i), ucast (drop_bit 8 i), ucast i]"

text \<open>\<^verbatim>\<open>v2Resolver.keyspaceID\<close> (lines 95-109).\<close>

definition v2_keyspaceID :: "v2Resolver \<Rightarrow> Value list \<Rightarrow> failure + byte list" where
  "v2_keyspaceID r row =
     (case index_row row (v2_shardingColumnIndex r) of
        Inl f \<Rightarrow> Inl f
      | Inr v \<Rightarrow>
          (case KeyspaceInfo_ShardingColumnType (v2_keyspaceInfo r) of
             BYTES \<Rightarrow> Inr (ToBytes v)
           | UINT64 \<Rightarrow>
               (case ToUint64 v of
                  Inl err \<Rightarrow> Inl (Error (ErrWrap err ''Non numerical value''))
                | Inr i \<Rightarrow> Inr (Uint64Key_Bytes i))
           | t \<Rightarrow> Inl (Error (ErrUnsupportedShardingColumnType t))))"

subsection \<open>The vindex-based resolver (v3)\<close>

text \<open>The field \<^verbatim>\<open>td\<close> is a pointer: \<open>None\<close> is nil.\<close>

record v3Resolver =
  v3_shardingColumnIndex :: int
  v3_vindex :: Vindex
  v3_td :: "TableDefinition option"

text \<open>
  \<^verbatim>\<open>v3Resolver.shouldDebug\<close> (lines 120-122) passes \<^verbatim>\<open>r.td\<close> on to
  \<^verbatim>\<open>debugTable\<close>; the error returned is always nil.
\<close>

definition v3_shouldDebug :: "resolver_env \<Rightarrow> v3Resolver \<Rightarrow> failure + bool" where
  "v3_shouldDebug env r = (case debugTable env (v3_td r) of Inl p \<Rightarrow> Inl (Panic p) | Inr b \<Rightarrow> Inr b)"

text \<open>\<^verbatim>\<open>v3Resolver.primaryColumns\<close> (lines 124-126) reads a field through \<^verbatim>\<open>r.td\<close>.\<close>

definition v3_primaryColumns :: "v3Resolver \<Rightarrow> failure + string list" where
  "v3_primaryColumns r =
     (case v3_td r of
        None \<Rightarrow> Inl (Panic NilDereference)
      | Some td \<Rightarrow> Inr (TableDefinition_PrimaryKeyColumns td))"

text \<open>
  \<^verbatim>\<open>v3Resolver.primaryIndexes\<close> (lines 128-141). \<open>firstMatch\<close> is the inner loop over
  \<^verbatim>\<open>range primaryIndexNames\<close> from index \<open>i\<close>, leaving at the first match with
  \<^verbatim>\<open>break\<close>; \<open>primaryIndexesLoop\<close> is the outer loop with the slice built so far.
\<close>

fun firstMatch :: "string list \<Rightarrow> string \<Rightarrow> int \<Rightarrow> int list \<Rightarrow> int list" where
  "firstMatch [] name i primaryIndexIndexes = primaryIndexIndexes"
| "firstMatch (n # rest) name i primaryIndexIndexes =
     (if n = name then primaryIndexIndexes @ [i]
      else firstMatch rest name (i + 1) primaryIndexIndexes)"

fun primaryIndexesLoop :: "string list \<Rightarrow> string list \<Rightarrow> int list \<Rightarrow> int list" where
  "primaryIndexesLoop primaryIndexNames [] primaryIndexIndexes = primaryIndexIndexes"
| "primaryIndexesLoop primaryIndexNames (name # rest) primaryIndexIndexes =
     primaryIndexesLoop primaryIndexNames rest
       (firstMatch primaryIndexNames name 0 primaryIndexIndexes)"

definition v3_primaryIndexes :: "v3Resolver \<Rightarrow> failure + int list" where
  "v3_primaryIndexes r =
     (case v3_td r of
        None \<Rightarrow> Inl (Panic NilDereference)
      | Some td \<Rightarrow>
          Inr (primaryIndexesLoop (TableDefinition_PrimaryKeyColumns td)
                 (TableDefinition_PrimaryKeyColumns td) []))"

text \<open>\<^verbatim>\<open>v3Resolver.keyspaceID\<close> (lines 202-216).\<close>

definition v3_keyspaceID :: "v3Resolver \<Rightarrow> Value list \<Rightarrow> failure + byte list" where
  "v3_keyspaceID r row =
     (case index_row row (v3_shardingColumnIndex r) of
        Inl f \<Rightarrow> Inl f
      | Inr v \<Rightarrow>
          (case Vindex_Map (v3_vindex r) [v] of
             Inl err \<Rightarrow> Inl (Error err)
           | Inr destinations \<Rightarrow>
               if length destinations \<noteq> 1
               then Inl (Error (ErrInvalidKeyspaceIds destinations))
               else (case destinations ! 0 of
                       DestinationKeyspaceID ksid \<Rightarrow>
                         if length ksid = 0
                         then Inl (Error (ErrCouldNotMap v (destinations ! 0)))
                         else Inr ksid
                     | d \<Rightarrow> Inl (Error (ErrCouldNotMap v d)))))"

subsection \<open>The interface and the constructors\<close>

datatype keyspaceIDResolver = V2 v2Resolver | V3 v3Resolver

fun keyspaceID :: "keyspaceIDResolver \<Rightarrow> Value list \<Rightarrow> failure + byte list" where
  "keyspaceID (V2 r) row = v2_keyspaceID r row"
| "keyspaceID (V3 r) row = v3_keyspaceID r row"

fun shouldDebug :: "resolver_env \<Rightarrow> keyspaceIDResolver \<Rightarrow> failure + bool" where
  "shouldDebug env (V2 r) = v2_shouldDebug r"
| "shouldDebug env (V3 r) = v3_shouldDebug env r"

fun primaryColumns :: "keyspaceIDResolver \<Rightarrow> failure + string list" where
  "primaryColumns (V2 r) = v2_primaryColumns r"
| "primaryColumns (V3 r) = v3_primaryColumns r"

fun primaryIndexes :: "keyspaceIDResolver \<Rightarrow> failure + int list" where
  "primaryIndexes (V2 r) = v2_primaryIndexes r"
| "primaryIndexes (V3 r) = v3_primaryIndexes r"

text \<open>\<^verbatim>\<open>newV2Resolver\<close> (lines 74-92).\<close>

definition newV2Resolver ::
  "resolver_env \<Rightarrow> KeyspaceInfo \<Rightarrow> TableDefinition \<Rightarrow> failure + keyspaceIDResolver" where
  "newV2Resolver env keyspaceInfo td =
     (if KeyspaceInfo_ShardingColumnName keyspaceInfo = [] then Inl (Error ErrShardingColumnNameUnset)
      else if KeyspaceInfo_ShardingColumnType keyspaceInfo = UNSET
      then Inl (Error ErrShardingColumnTypeUnset)
      else if TableDefinition_Type td \<noteq> TableBaseTable env
      then Inl (Error (ErrNotBaseTable (TableDefinition_Type td)))
      else (case TableDefinitionGetColumn env td (KeyspaceInfo_ShardingColumnName keyspaceInfo) of
              (columnIndex, ok) \<Rightarrow>
                if \<not> ok
                then Inl (Error (ErrNoSuchColumn (TableDefinition_Name td)
                                   (KeyspaceInfo_ShardingColumnName keyspaceInfo)))
                else Inr (V2 \<lparr> v2_keyspaceInfo = keyspaceInfo,
                                v2_shardingColumnIndex = columnIndex \<rparr>)))"

text \<open>
  \<^verbatim>\<open>newV3ResolverFromTableDefinition\<close> (lines 144-169). \<^verbatim>\<open>colVindex.Columns[0]\<close>
  panics when the vindex has no column.
\<close>

definition newV3ResolverFromTableDefinition ::
  "resolver_env \<Rightarrow> KeyspaceSchema \<Rightarrow> TableDefinition \<Rightarrow> failure + keyspaceIDResolver" where
  "newV3ResolverFromTableDefinition env keyspaceSchema td =
     (if TableDefinition_Type td \<noteq> TableBaseTable env
      then Inl (Error (ErrNotBaseTable (TableDefinition_Type td)))
      else (case KeyspaceSchema_Tables keyspaceSchema (TableDefinition_Name td) of
              None \<Rightarrow> Inl (Error (ErrNoVSchemaTable (TableDefinition_Name td)))
            | Some tableSchema \<Rightarrow>
                (case FindVindexForSharding env (TableDefinition_Name td)
                        (Table_ColumnVindexes tableSchema) of
                   Inl err \<Rightarrow> Inl (Error err)
                 | Inr colVindex \<Rightarrow>
                     (case ColumnVindex_Columns colVindex of
                        [] \<Rightarrow> Inl (Panic IndexOutOfRange)
                      | column0 # _ \<Rightarrow>
                          (case TableDefinitionGetColumn env td (ColIdent_String env column0) of
                             (columnIndex, ok) \<Rightarrow>
                               if \<not> ok
                               then Inl (Error (ErrUnknownVindexColumn (TableDefinition_Name td)
                                                  column0))
                               else Inr (V3 \<lparr> v3_shardingColumnIndex = columnIndex,
                                               v3_vindex = ColumnVindex_Vindex colVindex,
                                               v3_td = Some td \<rparr>))))))"

text \<open>
  \<^verbatim>\<open>newV3ResolverFromColumnList\<close> (lines 172-199). \<open>findColumn\<close> is the loop of lines
  185-190 from index \<open>i\<close>: the first match, or the initial \<open>-1\<close>. The struct literal of
  lines 195-198 sets no \<^verbatim>\<open>td\<close>, which leaves the pointer nil.
\<close>

fun findColumn :: "resolver_env \<Rightarrow> ColIdent \<Rightarrow> string list \<Rightarrow> int \<Rightarrow> int" where
  "findColumn env column0 [] i = - 1"
| "findColumn env column0 (n # rest) i =
     (if ColIdent_EqualString env column0 n then i else findColumn env column0 rest (i + 1))"

definition newV3ResolverFromColumnList ::
  "resolver_env \<Rightarrow> KeyspaceSchema \<Rightarrow> string \<Rightarrow> string list \<Rightarrow> failure + keyspaceIDResolver" where
  "newV3ResolverFromColumnList env keyspaceSchema name columns =
     (case KeyspaceSchema_Tables keyspaceSchema name of
        None \<Rightarrow> Inl (Error (ErrNoVSchemaTable name))
      | Some tableSchema \<Rightarrow>
          (case FindVindexForSharding env name (Table_ColumnVindexes tableSchema) of
             Inl err \<Rightarrow> Inl (Error err)
           | Inr colVindex \<Rightarrow>
               (case ColumnVindex_Columns colVindex of
                  [] \<Rightarrow> Inl (Panic IndexOutOfRange)
                | column0 # _ \<Rightarrow>
                    let columnIndex = findColumn env column0 columns 0
                    in if columnIndex = - 1
                       then Inl (Error (ErrUnknownVindexColumn name column0))
                       else Inr (V3 \<lparr> v3_shardingColumnIndex = columnIndex,
                                       v3_vindex = ColumnVindex_Vindex colVindex,
                                       v3_td = None \<rparr>))))"

section \<open>Notions used to state the properties\<close>


text \<open>
  What the message of a \<^verbatim>\<open>v3Resolver.keyspaceID\<close> error shows: the message of line 209
  prints the destinations, the message of line 213 prints the row value and the
  destination. \<open>namesOffender v ds f\<close> holds when \<open>f\<close> is one of these two errors and
  carries what the vindex returned for the value \<open>v\<close>: all the destinations \<open>ds\<close>,
  or the value \<open>v\<close> together with the single destination of \<open>ds\<close>.
\<close>

fun namesOffender :: "Value \<Rightarrow> Destination list \<Rightarrow> failure \<Rightarrow> bool" where
  "namesOffender v ds (Error (ErrInvalidKeyspaceIds ds')) = (ds' = ds)"
| "namesOffender v ds (Error (ErrCouldNotMap v' d)) = (v' = v \<and> ds = [d])"
| "namesOffender v ds _ = False"

text \<open>The number a byte sequence denotes when read big-endian.\<close>

definition be_nat :: "byte list \<Rightarrow> nat" where
  "be_nat bs = foldl (\<lambda>acc b. acc * 256 + unat b) 0 bs"

section \<open>A schema and statements to evaluate on\<close>

text \<open>
  A table \<open>user\<close> in the style of the planner's test schema: the primary vindex
  \<open>user_index\<close> (a hash) on column \<open>id\<close> and the owned lookup vindex
  \<open>name_user_map\<close> on column \<open>name\<close>. The functions of other files are given simple
  values; \<open>example_NewPlanValue\<close> turns a bind variable into a key and any other
  \<^verbatim>\<open>SQLVal\<close> into a literal.
\<close>

definition example_NewPlanValue :: "Expr \<Rightarrow> error + PlanValue" where
  "example_NewPlanValue e =
     (case e of
        SQLVal ValArg s \<Rightarrow> Inr \<lparr> PlanValue_Key = tl s, PlanValue_Value = None \<rparr>
      | SQLVal t s \<Rightarrow>
          Inr \<lparr> PlanValue_Key = [],
                PlanValue_Value = Some \<lparr> Value_typ = VarBinary, Value_val = map of_char s \<rparr> \<rparr>
      | _ \<Rightarrow> Inl (ErrExternal ''expression is too complex''))"

definition example_hash :: Vindex where
  "example_hash = \<lparr> Vindex_String = ''hash'', Vindex_isLookup = False,
                    Vindex_Map = (\<lambda>ids. Inr (map (\<lambda>v. DestinationKeyspaceID (Value_val v)) ids)) \<rparr>"

definition example_lookup :: Vindex where
  "example_lookup = \<lparr> Vindex_String = ''lookup'', Vindex_isLookup = True,
                      Vindex_Map = (\<lambda>ids. Inr (map (\<lambda>v. DestinationNone) ids)) \<rparr>"

definition user_index :: ColumnVindex where
  "user_index = \<lparr> ColumnVindex_Columns = [''id''], ColumnVindex_Name = ''user_index'',
                  ColumnVindex_Owned = False, ColumnVindex_Vindex = example_hash \<rparr>"

definition name_user_map :: ColumnVindex where
  "name_user_map = \<lparr> ColumnVindex_Columns = [''name''], ColumnVindex_Name = ''name_user_map'',
                     ColumnVindex_Owned = True, ColumnVindex_Vindex = example_lookup \<rparr>"

definition user_table :: Table where
  "user_table = \<lparr> Table_Name = ''user'', Table_ColumnVindexes = [user_index, name_user_map],
                  Table_Owned = [name_user_map] \<rparr>"

definition example_route :: "bool \<Rightarrow> route" where
  "example_route sharded =
     \<lparr> route_ERoute = \<lparr> ERoute_TargetDestination = None,
                         ERoute_Keyspace = \<lparr> Keyspace_Name = ''ks'', Keyspace_Sharded = sharded \<rparr> \<rparr>,
       route_Symtab_tables = [\<lparr> table_vindexTable = Some user_table \<rparr>] \<rparr>"

definition example_env :: "bool \<Rightarrow> unit planner_env" where
  "example_env sharded =
     \<lparr> generateQuery = (\<lambda>upd. ''update user set ...''),
       processTableExprs = (\<lambda>exprs vschema. Inr (RouteBuilder (example_route sharded))),
       validateSubquerySamePlan = (\<lambda>ks rb vschema exprs wh ob lim. True),
       hasSubquery = (\<lambda>upd. False),
       getDMLRouting = (\<lambda>wh table. Inr (example_hash, [])),
       ColIdent_Equal = (\<lambda>a b. a = b),
       NewPlanValue = example_NewPlanValue,
       format_ColIdent = (\<lambda>c. c),
       format_TableName = (\<lambda>t. t),
       format_Where = (\<lambda>wh. case wh of None \<Rightarrow> [] | Some e \<Rightarrow> '' where id = 1''),
       format_OrderBy = (\<lambda>ob. if ob = [] then [] else '' order by id''),
       format_Limit = (\<lambda>lim. case lim of None \<Rightarrow> [] | Some l \<Rightarrow> '' limit 1'') \<rparr>"

text \<open>\<^verbatim>\<open>update user set <exprs> where id = 1\<close>.\<close>

definition example_update :: "UpdateExpr list \<Rightarrow> Update" where
  "example_update exprs =
     \<lparr> Update_TableExprs = [AliasedTableExpr ''user''], Update_Exprs = exprs,
       Update_Where = Some (BinaryExpr ''='' (ColName ''id'') (SQLVal IntVal ''1'')),
       Update_OrderBy = [], Update_Limit = None \<rparr>"


text \<open>For the resolvers: a vindex whose \<^verbatim>\<open>Map\<close> fails.\<close>

definition example_failing :: Vindex where
  "example_failing = \<lparr> Vindex_String = ''failing'', Vindex_isLookup = False,
                       Vindex_Map = (\<lambda>ids. Inl (ErrExternal ''cannot map'')) \<rparr>"




section \<open>Evaluating the planner on the examples\<close>

text \<open>The equations that unfold \<^verbatim>\<open>buildUpdatePlan\<close> on the example schema.\<close>

lemmas example_defs =
  buildUpdatePlan_def buildChangedVindexesValues_def Let_def example_env_def
  example_route_def user_table_def user_index_def name_user_map_def example_update_def
  extractValueFromUpdate_def example_NewPlanValue_def example_lookup_def

section \<open>The unsharded path of buildUpdatePlan\<close>

text \<open>
  C8. When the table expressions resolve to a single route with no target destination in
  an unsharded keyspace, and \<^verbatim>\<open>validateSubquerySamePlan\<close> accepts the statement's SET,
  WHERE, ORDER BY and LIMIT parts, \<^verbatim>\<open>buildUpdatePlan\<close> succeeds with the opcode
  \<^verbatim>\<open>UpdateUnsharded\<close>, the query text \<^verbatim>\<open>generateQuery(upd)\<close> and an empty
  \<^verbatim>\<open>ChangedVindexValues\<close>. No vindex analysis takes part: the plan is the same
  whatever \<^verbatim>\<open>hasSubquery\<close>, \<^verbatim>\<open>getDMLRouting\<close>, \<^verbatim>\<open>ColIdent.Equal\<close> and
  \<^verbatim>\<open>NewPlanValue\<close> would compute.
\<close>

theorem buildUpdatePlan_unsharded:
  assumes "processTableExprs env (Update_TableExprs upd) vschema = Inr (RouteBuilder rb)"
    and "ERoute_TargetDestination (route_ERoute rb) = None"
    and "\<not> Keyspace_Sharded (ERoute_Keyspace (route_ERoute rb))"
    and "validateSubquerySamePlan env (Keyspace_Name (ERoute_Keyspace (route_ERoute rb))) rb vschema
           (Update_Exprs upd) (Update_Where upd) (Update_OrderBy upd) (Update_Limit upd)"
  shows "buildUpdatePlan env upd vschema =
           Inr \<lparr> eupd_Opcode = UpdateUnsharded,
                 eupd_Keyspace = Some (ERoute_Keyspace (route_ERoute rb)),
                 eupd_Query = generateQuery env upd, eupd_Vindex = None, eupd_Values = [],
                 eupd_ChangedVindexValues = [], eupd_Table = None, eupd_OwnedVindexQuery = [] \<rparr>
         \<and> buildUpdatePlan (env \<lparr> hasSubquery := h, getDMLRouting := g, ColIdent_Equal := eq,
                                   NewPlanValue := npv \<rparr>) upd vschema
             = buildUpdatePlan env upd vschema"
  using assms by (simp add: buildUpdatePlan_def Let_def)

theorem buildUpdatePlan_unsharded_witness:
  "buildUpdatePlan (example_env False)
       (example_update [\<lparr> UpdateExpr_Name = ''name'', UpdateExpr_Expr = SQLVal StrVal ''x'' \<rparr>]) ()
     = Inr \<lparr> eupd_Opcode = UpdateUnsharded,
             eupd_Keyspace = Some \<lparr> Keyspace_Name = ''ks'', Keyspace_Sharded = False \<rparr>,
             eupd_Query = ''update user set ...'', eupd_Vindex = None, eupd_Values = [],
             eupd_ChangedVindexValues = [], eupd_Table = None, eupd_OwnedVindexQuery = [] \<rparr>"
  using buildUpdatePlan_unsharded [of "example_env False"
      "example_update [\<lparr> UpdateExpr_Name = ''name'', UpdateExpr_Expr = SQLVal StrVal ''x'' \<rparr>]" "()"
      "example_route False"]
  by (simp add: example_env_def example_route_def example_update_def)

section \<open>The accessors of the fixed-column resolver\<close>

text \<open>
  C3. On every fixed-column (v2) resolver \<^verbatim>\<open>shouldDebug\<close> returns the error
  \<^verbatim>\<open>errV2unsupported\<close> and never a boolean, and \<^verbatim>\<open>primaryColumns\<close> and
  \<^verbatim>\<open>primaryIndexes\<close> panic with that error's text: neither returns a list, empty or
  not.
\<close>

theorem v2_accessors_unsupported:
  "shouldDebug env (V2 r) = Inl (Error errV2unsupported)
   \<and> primaryColumns (V2 r) = Inl (Panic (PanicMessage ''Should debug unsupported for v2''))
   \<and> primaryIndexes (V2 r) = Inl (Panic (PanicMessage ''Should debug unsupported for v2''))
   \<and> (\<forall>b. shouldDebug env (V2 r) \<noteq> Inr b)
   \<and> (\<forall>cols. primaryColumns (V2 r) \<noteq> Inr cols)
   \<and> (\<forall>idxs. primaryIndexes (V2 r) \<noteq> Inr idxs)"
  by (simp add: v2_shouldDebug_def v2_primaryColumns_def v2_primaryIndexes_def
      errV2unsupported_Error_def)

section \<open>primaryIndexes of the vindex-based resolver\<close>






section \<open>The owned-vindex fetch subquery\<close>













section \<open>Changed-vindex detection\<close>

lemma scanAssignments_no_target:
  "\<forall>a \<in> set exprs. \<not> ColIdent_Equal env vcol (UpdateExpr_Name a) \<Longrightarrow>
   scanAssignments env vcol exprs found vals = Inr (found, vals)"
  by (induction exprs) auto

lemma scanAssignments_found_success:
  "scanAssignments env vcol exprs True vals = Inr res \<Longrightarrow>
   (\<forall>a \<in> set exprs. \<not> ColIdent_Equal env vcol (UpdateExpr_Name a)) \<and> res = (True, vals)"
  by (induction exprs) (auto split: if_splits)

lemma scanAssignments_success:
  "scanAssignments env vcol exprs False vals = Inr (found, vals') \<Longrightarrow>
   length (filter (\<lambda>a. ColIdent_Equal env vcol (UpdateExpr_Name a)) exprs) \<le> 1
   \<and> (\<forall>a \<in> set exprs. ColIdent_Equal env vcol (UpdateExpr_Name a) \<longrightarrow>
         (\<exists>pv. extractValueFromUpdate env a vcol = Inr pv))
   \<and> length vals' =
       length vals + length (filter (\<lambda>a. ColIdent_Equal env vcol (UpdateExpr_Name a)) exprs)"
proof (induction exprs)
  case Nil
  then show ?case by simp
next
  case (Cons a rest)
  show ?case
  proof (cases "ColIdent_Equal env vcol (UpdateExpr_Name a)")
    case False
    with Cons show ?thesis by simp
  next
    case True
    with Cons.prems obtain pv where pv: "extractValueFromUpdate env a vcol = Inr pv"
      and rest: "scanAssignments env vcol rest True (vals @ [pv]) = Inr (found, vals')"
      by (auto split: sum.splits)
    from scanAssignments_found_success[OF rest]
    have "\<forall>a \<in> set rest. \<not> ColIdent_Equal env vcol (UpdateExpr_Name a)"
      and "vals' = vals @ [pv]" by auto
    then have none: "\<forall>a \<in> set rest. \<not> ColIdent_Equal env vcol (UpdateExpr_Name a)"
      and f: "filter (\<lambda>a. ColIdent_Equal env vcol (UpdateExpr_Name a)) rest = []"
      and v: "vals' = vals @ [pv]" by (simp_all add: filter_empty_conv)
    show ?thesis using True pv none f v by simp
  qed
qed

lemma scanColumns_success:
  "scanColumns env cols exprs vals = Inr vals' \<Longrightarrow>
   (\<forall>c \<in> set cols.
      length (filter (\<lambda>a. ColIdent_Equal env c (UpdateExpr_Name a)) exprs) \<le> 1
      \<and> (\<forall>a \<in> set exprs. ColIdent_Equal env c (UpdateExpr_Name a) \<longrightarrow>
            (\<exists>pv. extractValueFromUpdate env a c = Inr pv)))
   \<and> length vals \<le> length vals'
   \<and> ((\<exists>c \<in> set cols. \<exists>a \<in> set exprs. ColIdent_Equal env c (UpdateExpr_Name a)) \<longrightarrow>
        length vals < length vals')"
proof (induction cols arbitrary: vals)
  case Nil
  then show ?case by simp
next
  case (Cons c cols)
  from Cons.prems obtain found mid where
    first: "scanAssignments env c exprs False vals = Inr (found, mid)"
    and rest: "scanColumns env cols exprs mid = Inr vals'"
    by (auto split: sum.splits)
  note s = scanAssignments_success[OF first]
  note r = Cons.IH[OF rest]
  have pos: "0 < length (filter (\<lambda>a. ColIdent_Equal env c (UpdateExpr_Name a)) exprs)"
    if "\<exists>a \<in> set exprs. ColIdent_Equal env c (UpdateExpr_Name a)"
    using that by (simp add: filter_empty_conv)
  show ?case
  proof (intro conjI)
    show "\<forall>c \<in> set (c # cols).
      length (filter (\<lambda>a. ColIdent_Equal env c (UpdateExpr_Name a)) exprs) \<le> 1
      \<and> (\<forall>a \<in> set exprs. ColIdent_Equal env c (UpdateExpr_Name a) \<longrightarrow>
            (\<exists>pv. extractValueFromUpdate env a c = Inr pv))"
      using s r by simp
    show "length vals \<le> length vals'" using s r by simp
    show "(\<exists>c \<in> set (c # cols). \<exists>a \<in> set exprs. ColIdent_Equal env c (UpdateExpr_Name a)) \<longrightarrow>
        length vals < length vals'"
    proof
      assume "\<exists>c \<in> set (c # cols). \<exists>a \<in> set exprs. ColIdent_Equal env c (UpdateExpr_Name a)"
      then consider "\<exists>a \<in> set exprs. ColIdent_Equal env c (UpdateExpr_Name a)"
        | "\<exists>c \<in> set cols. \<exists>a \<in> set exprs. ColIdent_Equal env c (UpdateExpr_Name a)"
        by auto
      then show "length vals < length vals'"
      proof cases
        case 1
        from pos[OF 1] s have "length vals < length mid" by simp
        with r show ?thesis by simp
      next
        case 2
        with r have "length mid < length vals'" by blast
        with s show ?thesis by simp
      qed
    qed
  qed
qed

lemma changedVindexesLoop_step_success:
  assumes "changedVindexesLoop env update i (cv # cvs) changed = Inr changed'"
  shows "\<exists>vals ch. scanColumns env (ColumnVindex_Columns cv) (Update_Exprs update) [] = Inr vals
           \<and> (vals \<noteq> [] \<longrightarrow> i \<noteq> 0)
           \<and> changedVindexesLoop env update (i + 1) cvs ch = Inr changed'"
proof (cases "scanColumns env (ColumnVindex_Columns cv) (Update_Exprs update) []")
  case (Inl err)
  with assms show ?thesis by simp
next
  case (Inr vals)
  show ?thesis
  proof (cases "vals = []")
    case True
    with assms Inr show ?thesis by auto
  next
    case False
    with assms Inr have "i \<noteq> 0" by (auto split: if_splits)
    moreover from assms Inr False
    have "changedVindexesLoop env update (i + 1) cvs
            (AList.update (ColumnVindex_Name cv) vals changed) = Inr changed'"
      by (simp split: if_splits)
    ultimately show ?thesis using Inr by blast
  qed
qed

lemma changedVindexesLoop_success:
  "changedVindexesLoop env update i cvs changed = Inr changed' \<Longrightarrow>
   \<forall>cv \<in> set cvs. \<forall>c \<in> set (ColumnVindex_Columns cv).
      length (filter (\<lambda>a. ColIdent_Equal env c (UpdateExpr_Name a)) (Update_Exprs update)) \<le> 1
      \<and> (\<forall>a \<in> set (Update_Exprs update). ColIdent_Equal env c (UpdateExpr_Name a) \<longrightarrow>
            (\<exists>pv. extractValueFromUpdate env a c = Inr pv))"
proof (induction cvs arbitrary: i changed)
  case Nil
  then show ?case by simp
next
  case (Cons cv cvs)
  from changedVindexesLoop_step_success[OF Cons.prems] obtain vals ch where
    vals: "scanColumns env (ColumnVindex_Columns cv) (Update_Exprs update) [] = Inr vals"
    and rest: "changedVindexesLoop env update (i + 1) cvs ch = Inr changed'"
    by blast
  from Cons.IH[OF rest] scanColumns_success[OF vals] show ?case by simp
qed




lemma scanAssignments_nonvalues:
  assumes "\<forall>a \<in> set exprs. ColIdent_Equal env vcol (UpdateExpr_Name a) \<longrightarrow>
             \<not> IsValue (UpdateExpr_Expr a)"
    and "\<exists>a \<in> set exprs. ColIdent_Equal env vcol (UpdateExpr_Name a)"
  shows "\<exists>a \<in> set exprs. ColIdent_Equal env vcol (UpdateExpr_Name a) \<and> \<not> IsValue (UpdateExpr_Expr a)
           \<and> scanAssignments env vcol exprs False vals = Inl (ErrOnlyValues (UpdateExpr_Name a))"
  using assms
proof (induction exprs)
  case Nil
  then show ?case by simp
next
  case (Cons x rest)
  show ?case
  proof (cases "ColIdent_Equal env vcol (UpdateExpr_Name x)")
    case True
    with Cons.prems(1) have "\<not> IsValue (UpdateExpr_Expr x)" by simp
    with True show ?thesis by (simp add: extractValueFromUpdate_def)
  next
    case False
    with Cons.prems have "\<forall>a \<in> set rest. ColIdent_Equal env vcol (UpdateExpr_Name a) \<longrightarrow>
             \<not> IsValue (UpdateExpr_Expr a)"
      and "\<exists>a \<in> set rest. ColIdent_Equal env vcol (UpdateExpr_Name a)" by auto
    from Cons.IH[OF this] False show ?thesis by auto
  qed
qed

lemma scanColumns_nonvalues:
  assumes "\<forall>c \<in> set cols. \<forall>a \<in> set exprs. ColIdent_Equal env c (UpdateExpr_Name a) \<longrightarrow>
             \<not> IsValue (UpdateExpr_Expr a)"
  shows "if \<exists>c \<in> set cols. \<exists>a \<in> set exprs. ColIdent_Equal env c (UpdateExpr_Name a)
         then \<exists>a \<in> set exprs. (\<exists>c \<in> set cols. ColIdent_Equal env c (UpdateExpr_Name a))
                \<and> \<not> IsValue (UpdateExpr_Expr a)
                \<and> scanColumns env cols exprs vals = Inl (ErrOnlyValues (UpdateExpr_Name a))
         else scanColumns env cols exprs vals = Inr vals"
  using assms
proof (induction cols)
  case Nil
  then show ?case by simp
next
  case (Cons c cols)
  show ?case
  proof (cases "\<exists>a \<in> set exprs. ColIdent_Equal env c (UpdateExpr_Name a)")
    case True
    from Cons.prems have "\<forall>a \<in> set exprs. ColIdent_Equal env c (UpdateExpr_Name a) \<longrightarrow>
             \<not> IsValue (UpdateExpr_Expr a)" by simp
    from scanAssignments_nonvalues[OF this True, of vals] obtain a where
      "a \<in> set exprs" "ColIdent_Equal env c (UpdateExpr_Name a)" "\<not> IsValue (UpdateExpr_Expr a)"
      "scanAssignments env c exprs False vals = Inl (ErrOnlyValues (UpdateExpr_Name a))" by blast
    then show ?thesis using True by auto
  next
    case False
    then have "scanAssignments env c exprs False vals = Inr (False, vals)"
      by (simp add: scanAssignments_no_target)
    moreover from Cons have "if \<exists>c \<in> set cols. \<exists>a \<in> set exprs. ColIdent_Equal env c (UpdateExpr_Name a)
         then \<exists>a \<in> set exprs. (\<exists>c \<in> set cols. ColIdent_Equal env c (UpdateExpr_Name a))
                \<and> \<not> IsValue (UpdateExpr_Expr a)
                \<and> scanColumns env cols exprs vals = Inl (ErrOnlyValues (UpdateExpr_Name a))
         else scanColumns env cols exprs vals = Inr vals" by simp
    ultimately show ?thesis using False by (auto split: if_splits)
  qed
qed

lemma changedVindexesLoop_nonvalues:
  assumes "\<forall>cv \<in> set cvs. \<forall>c \<in> set (ColumnVindex_Columns cv). \<forall>a \<in> set (Update_Exprs update).
             ColIdent_Equal env c (UpdateExpr_Name a) \<longrightarrow> \<not> IsValue (UpdateExpr_Expr a)"
    and "\<exists>cv \<in> set cvs. \<exists>c \<in> set (ColumnVindex_Columns cv). \<exists>a \<in> set (Update_Exprs update).
             ColIdent_Equal env c (UpdateExpr_Name a)"
  shows "\<exists>a \<in> set (Update_Exprs update). \<not> IsValue (UpdateExpr_Expr a)
           \<and> (\<exists>cv \<in> set cvs. \<exists>c \<in> set (ColumnVindex_Columns cv).
                 ColIdent_Equal env c (UpdateExpr_Name a))
           \<and> changedVindexesLoop env update i cvs changed = Inl (ErrOnlyValues (UpdateExpr_Name a))"
  using assms
proof (induction cvs arbitrary: i)
  case Nil
  then show ?case by simp
next
  case (Cons cv cvs)
  from Cons.prems(1) have nv: "\<forall>c \<in> set (ColumnVindex_Columns cv). \<forall>a \<in> set (Update_Exprs update).
             ColIdent_Equal env c (UpdateExpr_Name a) \<longrightarrow> \<not> IsValue (UpdateExpr_Expr a)" by simp
  note sc = scanColumns_nonvalues[OF nv, of "[]"]
  show ?case
  proof (cases "\<exists>c \<in> set (ColumnVindex_Columns cv). \<exists>a \<in> set (Update_Exprs update).
             ColIdent_Equal env c (UpdateExpr_Name a)")
    case True
    with sc obtain a where "a \<in> set (Update_Exprs update)" "\<not> IsValue (UpdateExpr_Expr a)"
      "\<exists>c \<in> set (ColumnVindex_Columns cv). ColIdent_Equal env c (UpdateExpr_Name a)"
      "scanColumns env (ColumnVindex_Columns cv) (Update_Exprs update) []
         = Inl (ErrOnlyValues (UpdateExpr_Name a))"
      by auto
    then show ?thesis by (intro bexI[of _ a]) simp_all
  next
    case False
    with sc have s: "scanColumns env (ColumnVindex_Columns cv) (Update_Exprs update) [] = Inr []"
      by simp
    from False Cons.prems have "\<forall>cv \<in> set cvs. \<forall>c \<in> set (ColumnVindex_Columns cv). \<forall>a \<in> set (Update_Exprs update).
             ColIdent_Equal env c (UpdateExpr_Name a) \<longrightarrow> \<not> IsValue (UpdateExpr_Expr a)"
     and "\<exists>cv \<in> set cvs. \<exists>c \<in> set (ColumnVindex_Columns cv). \<exists>a \<in> set (Update_Exprs update).
             ColIdent_Equal env c (UpdateExpr_Name a)" by auto
    from Cons.IH[OF this, of "i + 1"] obtain a where "a \<in> set (Update_Exprs update)"
      "\<not> IsValue (UpdateExpr_Expr a)"
      "\<exists>cv \<in> set cvs. \<exists>c \<in> set (ColumnVindex_Columns cv). ColIdent_Equal env c (UpdateExpr_Name a)"
      "changedVindexesLoop env update (i + 1) cvs changed = Inl (ErrOnlyValues (UpdateExpr_Name a))"
      by blast
    then show ?thesis using s by (intro bexI[of _ a]) simp_all
  qed
qed

lemma scanAssignments_found_duplicate:
  "filter (\<lambda>a. ColIdent_Equal env vcol (UpdateExpr_Name a)) exprs = a2 # others \<Longrightarrow>
   scanAssignments env vcol exprs True vals = Inl (ErrDuplicateSetValues (UpdateExpr_Name a2))"
  by (induction exprs) (auto split: if_splits)

lemma scanAssignments_duplicate:
  "filter (\<lambda>a. ColIdent_Equal env vcol (UpdateExpr_Name a)) exprs = a1 # a2 # others \<Longrightarrow>
   extractValueFromUpdate env a1 vcol = Inr pv \<Longrightarrow>
   scanAssignments env vcol exprs False vals = Inl (ErrDuplicateSetValues (UpdateExpr_Name a2))"
proof (induction exprs)
  case Nil
  then show ?case by simp
next
  case (Cons x rest)
  show ?case
  proof (cases "ColIdent_Equal env vcol (UpdateExpr_Name x)")
    case False
    with Cons show ?thesis by simp
  next
    case True
    with Cons.prems have "x = a1"
      and "filter (\<lambda>a. ColIdent_Equal env vcol (UpdateExpr_Name a)) rest = a2 # others" by simp_all
    with scanAssignments_found_duplicate[of env vcol rest a2 others "vals @ [pv]"] True Cons.prems(2)
    show ?thesis by simp
  qed
qed

lemma scanColumns_append:
  "scanColumns env cpre exprs vals = Inr mid \<Longrightarrow>
   scanColumns env (cpre @ rest) exprs vals = scanColumns env rest exprs mid"
  by (induction cpre arbitrary: vals) (auto split: sum.splits)

lemma changedVindexesLoop_append:
  "changedVindexesLoop env update i pre changed = Inr changed' \<Longrightarrow>
   changedVindexesLoop env update i (pre @ rest) changed
     = changedVindexesLoop env update (i + length pre) rest changed'"
proof (induction pre arbitrary: i changed)
  case Nil
  then show ?case by simp
next
  case (Cons cv pre)
  from Cons.prems obtain vals where
    vals: "scanColumns env (ColumnVindex_Columns cv) (Update_Exprs update) [] = Inr vals"
    by (auto split: sum.splits)
  show ?case
  proof (cases "vals = []")
    case True
    with Cons.prems vals have "changedVindexesLoop env update (i + 1) pre changed = Inr changed'"
      by simp
    from Cons.IH[OF this] vals True show ?thesis by simp
  next
    case False
    with Cons.prems vals have ok: "length vals = length (ColumnVindex_Columns cv)"
      "\<not> (Update_Limit update \<noteq> None \<and> length (Update_OrderBy update) = 0)" "i \<noteq> 0"
      "Vindex_isLookup (ColumnVindex_Vindex cv)" "ColumnVindex_Owned cv"
      and rest: "changedVindexesLoop env update (i + 1) pre
            (AList.update (ColumnVindex_Name cv) vals changed) = Inr changed'"
      by (auto split: if_splits)
    from Cons.IH[OF rest] vals False ok show ?thesis by auto
  qed
qed

lemma changedVindexesLoop_duplicate:
  assumes "changedVindexesLoop env update 0 pre [] = Inr changed"
    and "ColumnVindex_Columns vindex = cpre @ vcol # cpost"
    and "scanColumns env cpre (Update_Exprs update) [] = Inr vals"
    and "filter (\<lambda>a. ColIdent_Equal env vcol (UpdateExpr_Name a)) (Update_Exprs update)
           = a1 # a2 # others"
    and "extractValueFromUpdate env a1 vcol = Inr pv"
  shows "changedVindexesLoop env update 0 (pre @ vindex # post) []
           = Inl (ErrDuplicateSetValues (UpdateExpr_Name a2))"
proof -
  have "scanColumns env (cpre @ vcol # cpost) (Update_Exprs update) []
          = Inl (ErrDuplicateSetValues (UpdateExpr_Name a2))"
    using scanColumns_append[OF assms(3)] scanAssignments_duplicate[OF assms(4,5)] by simp
  then show ?thesis
    using changedVindexesLoop_append[OF assms(1)] assms(2) by simp
qed


lemma scanAssignments_first_nonvalue:
  "filter (\<lambda>a. ColIdent_Equal env vcol (UpdateExpr_Name a)) exprs = a1 # others \<Longrightarrow>
   \<not> IsValue (UpdateExpr_Expr a1) \<Longrightarrow>
   scanAssignments env vcol exprs False vals = Inl (ErrOnlyValues (UpdateExpr_Name a1))"
proof (induction exprs)
  case Nil
  then show ?case by simp
next
  case (Cons x rest)
  show ?case
  proof (cases "ColIdent_Equal env vcol (UpdateExpr_Name x)")
    case False
    with Cons show ?thesis by simp
  next
    case True
    with Cons.prems have "x = a1" by simp
    with True Cons.prems(2) show ?thesis by (simp add: extractValueFromUpdate_def)
  qed
qed

lemma changedVindexesLoop_first_nonvalue:
  assumes "changedVindexesLoop env update 0 pre [] = Inr changed"
    and "ColumnVindex_Columns vindex = cpre @ vcol # cpost"
    and "scanColumns env cpre (Update_Exprs update) [] = Inr vals"
    and "filter (\<lambda>a. ColIdent_Equal env vcol (UpdateExpr_Name a)) (Update_Exprs update)
           = a1 # others"
    and "\<not> IsValue (UpdateExpr_Expr a1)"
  shows "changedVindexesLoop env update 0 (pre @ vindex # post) []
           = Inl (ErrOnlyValues (UpdateExpr_Name a1))"
proof -
  have "scanColumns env (cpre @ vcol # cpost) (Update_Exprs update) []
          = Inl (ErrOnlyValues (UpdateExpr_Name a1))"
    using scanColumns_append[OF assms(3)] scanAssignments_first_nonvalue[OF assms(4,5)] by simp
  then show ?thesis
    using changedVindexesLoop_append[OF assms(1)] assms(2) by simp
qed

lemma buildUpdatePlan_detection_error:
  assumes "processTableExprs env (Update_TableExprs upd) vschema = Inr (RouteBuilder rb)"
    and "ERoute_TargetDestination (route_ERoute rb) = None"
    and "Keyspace_Sharded (ERoute_Keyspace (route_ERoute rb))"
    and "\<not> hasSubquery env upd"
    and "route_Symtab_tables rb = [tval]"
    and "table_vindexTable tval = Some table"
    and "getDMLRouting env (Update_Where upd) table = Inr routing"
    and "changedVindexesLoop env upd 0 (Table_ColumnVindexes table) [] = Inl err"
  shows "buildUpdatePlan env upd vschema = Inl err"
  using assms
  by (simp add: buildUpdatePlan_def buildChangedVindexesValues_def Let_def split: prod.splits)

section \<open>Assignments to the primary vindex\<close>




section \<open>Duplicate assignments\<close>

text \<open>
  C9, as amended. Take a sharded UPDATE that passes the checks of \<^verbatim>\<open>buildUpdatePlan\<close>
  before changed-vindex detection, and a column \<open>vcol\<close> of a column-vindex \<open>vindex\<close> of
  the table (the primary vindex when \<open>pre\<close> is empty). If two or more assignments of the
  SET list target \<open>vcol\<close>, planning fails. The error is the duplicate-set-values error,
  naming the second such assignment's column, when the column-vindexes before \<open>vindex\<close>
  and the columns of \<open>vindex\<close> before \<open>vcol\<close> pass their checks and the value of the
  first assignment to \<open>vcol\<close> is extracted.
\<close>

theorem duplicate_set_values_rejected:
  assumes "processTableExprs env (Update_TableExprs upd) vschema = Inr (RouteBuilder rb)"
    and "ERoute_TargetDestination (route_ERoute rb) = None"
    and "Keyspace_Sharded (ERoute_Keyspace (route_ERoute rb))"
    and "\<not> hasSubquery env upd"
    and "route_Symtab_tables rb = [tval]"
    and "table_vindexTable tval = Some table"
    and "getDMLRouting env (Update_Where upd) table = Inr routing"
    and "Table_ColumnVindexes table = pre @ vindex # post"
    and "ColumnVindex_Columns vindex = cpre @ vcol # cpost"
  shows "(2 \<le> length (filter (\<lambda>a. ColIdent_Equal env vcol (UpdateExpr_Name a)) (Update_Exprs upd))
          \<longrightarrow> (\<exists>err. buildUpdatePlan env upd vschema = Inl err))
       \<and> ((changedVindexesLoop env upd 0 pre [] = Inr changed
            \<and> scanColumns env cpre (Update_Exprs upd) [] = Inr vals
            \<and> filter (\<lambda>a. ColIdent_Equal env vcol (UpdateExpr_Name a)) (Update_Exprs upd)
                = a1 # a2 # rest
            \<and> extractValueFromUpdate env a1 vcol = Inr pv)
          \<longrightarrow> buildUpdatePlan env upd vschema = Inl (ErrDuplicateSetValues (UpdateExpr_Name a2))
              \<and> ColIdent_Equal env vcol (UpdateExpr_Name a2))"
proof (intro conjI impI)
  note err = buildUpdatePlan_detection_error[OF assms(1-7)]
  {
    assume two: "2 \<le> length (filter (\<lambda>a. ColIdent_Equal env vcol (UpdateExpr_Name a)) (Update_Exprs upd))"
    show "\<exists>err. buildUpdatePlan env upd vschema = Inl err"
    proof (cases "changedVindexesLoop env upd 0 (Table_ColumnVindexes table) []")
      case (Inl e)
      with err show ?thesis by blast
    next
      case (Inr ch)
      from changedVindexesLoop_success[OF Inr] assms(8,9)
      have "length (filter (\<lambda>a. ColIdent_Equal env vcol (UpdateExpr_Name a)) (Update_Exprs upd)) \<le> 1"
        by simp
      with two show ?thesis by simp
    qed
  }
  {
    assume h: "changedVindexesLoop env upd 0 pre [] = Inr changed
            \<and> scanColumns env cpre (Update_Exprs upd) [] = Inr vals
            \<and> filter (\<lambda>a. ColIdent_Equal env vcol (UpdateExpr_Name a)) (Update_Exprs upd)
                = a1 # a2 # rest
            \<and> extractValueFromUpdate env a1 vcol = Inr pv"
    then have "changedVindexesLoop env upd 0 (pre @ vindex # post) []
                 = Inl (ErrDuplicateSetValues (UpdateExpr_Name a2))"
      using changedVindexesLoop_duplicate[OF _ assms(9), of env upd pre changed vals a1 a2 rest pv post]
      by simp
    with err assms(8)
    show "buildUpdatePlan env upd vschema = Inl (ErrDuplicateSetValues (UpdateExpr_Name a2))"
      by simp
    from h have "a2 \<in> set (filter (\<lambda>a. ColIdent_Equal env vcol (UpdateExpr_Name a)) (Update_Exprs upd))"
      by simp
    then show "ColIdent_Equal env vcol (UpdateExpr_Name a2)" by simp
  }
qed

theorem duplicate_set_values_rejected_witness:
  "buildUpdatePlan (example_env True)
     (example_update [\<lparr> UpdateExpr_Name = ''name'', UpdateExpr_Expr = SQLVal StrVal ''a'' \<rparr>,
                      \<lparr> UpdateExpr_Name = ''name'', UpdateExpr_Expr = SQLVal StrVal ''b'' \<rparr>]) ()
     = Inl (ErrDuplicateSetValues ''name'')"
  using duplicate_set_values_rejected [of "example_env True"
      "example_update [\<lparr> UpdateExpr_Name = ''name'', UpdateExpr_Expr = SQLVal StrVal ''a'' \<rparr>,
                       \<lparr> UpdateExpr_Name = ''name'', UpdateExpr_Expr = SQLVal StrVal ''b'' \<rparr>]" "()"
      "example_route True" "\<lparr> table_vindexTable = Some user_table \<rparr>" user_table
      "(example_hash, [])" "[user_index]" name_user_map "[]" "[]" "''name''" "[]"]
  by (simp add: example_defs)

theorem duplicate_set_values_counterexample:
  "buildUpdatePlan (example_env True)
     (example_update [\<lparr> UpdateExpr_Name = ''name'',
                        UpdateExpr_Expr = BinaryExpr ''+'' (ColName ''name'') (SQLVal IntVal ''1'') \<rparr>,
                      \<lparr> UpdateExpr_Name = ''name'', UpdateExpr_Expr = SQLVal StrVal ''b'' \<rparr>]) ()
     = Inl (ErrOnlyValues ''name'')
   \<and> buildUpdatePlan (example_env True)
       (example_update [\<lparr> UpdateExpr_Name = ''id'', UpdateExpr_Expr = SQLVal IntVal ''1'' \<rparr>,
                        \<lparr> UpdateExpr_Name = ''name'', UpdateExpr_Expr = SQLVal StrVal ''a'' \<rparr>,
                        \<lparr> UpdateExpr_Name = ''name'', UpdateExpr_Expr = SQLVal StrVal ''b'' \<rparr>]) ()
     = Inl (ErrPrimaryVindex ''user_index'')
   \<and> ColumnVindex_Columns (Table_ColumnVindexes user_table ! 1) = [''name'']"
  by (simp add: example_defs)

section \<open>The big-endian encoding\<close>

lemma unat_byte_of: "unat (ucast (drop_bit k (i :: 64 word)) :: byte) = (unat i div 2 ^ k) mod 256"
proof -
  have "unat (ucast (drop_bit k i) :: byte) = take_bit 8 (drop_bit k (unat i))"
    by (simp add: unsigned_ucast_eq unat_drop_bit_eq)
  also have "\<dots> = (unat i div 2 ^ k) mod 256"
    by (simp add: take_bit_eq_mod drop_bit_eq_div)
  finally show ?thesis .
qed

lemma base256_step: "(n div 2 ^ (k + 8)) * 256 + (n div 2 ^ k) mod 256 = n div 2 ^ k" for n :: nat
proof -
  have "n div 2 ^ (k + 8) = (n div 2 ^ k) div 256"
    by (simp add: power_add div_mult2_eq)
  then show ?thesis by simp
qed

lemma be_nat_Uint64Key_Bytes: "be_nat (Uint64Key_Bytes i) = unat i"
proof -
  define t where "t k = unat i div 2 ^ k" for k
  have b: "\<And>k. unat (ucast (drop_bit k i) :: byte) = t k mod 256"
    by (simp add: t_def unat_byte_of)
  have b0: "unat (ucast i :: byte) = t 0 mod 256"
    using b[of 0] by simp
  have t0: "t 0 = unat i" by (simp add: t_def)
  have top: "t 56 mod 256 = t 56"
  proof -
    have "unat i < 2 ^ 64" using unsigned_less[of i] by simp
    then have "unat i div 2 ^ 56 < 256" by (simp add: less_mult_imp_div_less)
    then show ?thesis by (simp add: t_def)
  qed
  have s: "\<And>k. t (k + 8) * 256 + t k mod 256 = t k"
    unfolding t_def by (rule base256_step)
  have "be_nat (Uint64Key_Bytes i) =
      ((((((t 56 mod 256 * 256 + t 48 mod 256) * 256 + t 40 mod 256) * 256 + t 32 mod 256) * 256
        + t 24 mod 256) * 256 + t 16 mod 256) * 256 + t 8 mod 256) * 256 + t 0 mod 256"
    by (simp add: be_nat_def Uint64Key_Bytes_def b b0)
  also have "\<dots> = t 0"
    using s[of 48] s[of 40] s[of 32] s[of 24] s[of 16] s[of 8] s[of 0] top by simp
  finally show ?thesis by (simp add: t0)
qed


lemma parseDigits_nondigit:
  "\<exists>b \<in> set bs. unat b < 48 \<or> 57 < unat b \<Longrightarrow> parseDigits bs acc = None"
  by (induction bs arbitrary: acc) auto


section \<open>keyspaceID of the fixed-column resolver\<close>

text \<open>
  C6. For a fixed-column (v2) resolver and a row that contains the sharding column: with
  the declared type \<^verbatim>\<open>BYTES\<close>, \<^verbatim>\<open>keyspaceID\<close> returns the value's bytes unchanged;
  with \<^verbatim>\<open>UINT64\<close> it returns the error of \<^verbatim>\<open>ToUint64\<close> wrapped as "Non numerical
  value" when the value does not parse (as when a byte is not a digit), and otherwise
  eight bytes that read big-endian are the parsed number; with any other declared type
  it returns the unsupported-type error. The text \<open>300\<close> parses to 300, whose encoding
  is \<open>00 00 00 00 00 00 01 2C\<close>.
\<close>

theorem v2_keyspaceID_by_type:
  assumes "0 \<le> v2_shardingColumnIndex r" and "v2_shardingColumnIndex r < int (length row)"
  shows "(KeyspaceInfo_ShardingColumnType (v2_keyspaceInfo r) = BYTES \<longrightarrow>
            keyspaceID (V2 r) row = Inr (Value_val (row ! nat (v2_shardingColumnIndex r))))
       \<and> (KeyspaceInfo_ShardingColumnType (v2_keyspaceInfo r) = UINT64 \<longrightarrow>
            (\<forall>err. ToUint64 (row ! nat (v2_shardingColumnIndex r)) = Inl err \<longrightarrow>
               keyspaceID (V2 r) row = Inl (Error (ErrWrap err ''Non numerical value'')))
          \<and> ((\<exists>b \<in> set (Value_val (row ! nat (v2_shardingColumnIndex r))).
                 unat b < 48 \<or> 57 < unat b) \<longrightarrow>
               (\<exists>err. keyspaceID (V2 r) row = Inl (Error (ErrWrap err ''Non numerical value''))))
          \<and> (\<forall>i. ToUint64 (row ! nat (v2_shardingColumnIndex r)) = Inr i \<longrightarrow>
               (\<exists>bs. keyspaceID (V2 r) row = Inr bs \<and> length bs = 8 \<and> be_nat bs = unat i)))
       \<and> (KeyspaceInfo_ShardingColumnType (v2_keyspaceInfo r) \<noteq> BYTES
          \<and> KeyspaceInfo_ShardingColumnType (v2_keyspaceInfo r) \<noteq> UINT64 \<longrightarrow>
            keyspaceID (V2 r) row
              = Inl (Error (ErrUnsupportedShardingColumnType
                              (KeyspaceInfo_ShardingColumnType (v2_keyspaceInfo r)))))
       \<and> ToUint64 \<lparr> Value_typ = t, Value_val = [51, 48, 48] \<rparr> = Inr 300
       \<and> Uint64Key_Bytes 300 = [0, 0, 0, 0, 0, 0, 1, 0x2C]"
proof -
  let ?v = "row ! nat (v2_shardingColumnIndex r)"
  let ?t = "KeyspaceInfo_ShardingColumnType (v2_keyspaceInfo r)"
  have ix: "index_row row (v2_shardingColumnIndex r) = Inr ?v"
    using assms by (simp add: index_row_def)
  have bytes: "?t = BYTES \<longrightarrow> keyspaceID (V2 r) row = Inr (Value_val ?v)"
    by (simp add: v2_keyspaceID_def ix ToBytes_def)
  have fail: "?t = UINT64 \<longrightarrow> (\<forall>err. ToUint64 ?v = Inl err \<longrightarrow>
      keyspaceID (V2 r) row = Inl (Error (ErrWrap err ''Non numerical value'')))"
    by (simp add: v2_keyspaceID_def ix)
  have nondigit: "?t = UINT64 \<longrightarrow> ((\<exists>b \<in> set (Value_val ?v). unat b < 48 \<or> 57 < unat b) \<longrightarrow>
      (\<exists>err. keyspaceID (V2 r) row = Inl (Error (ErrWrap err ''Non numerical value''))))"
  proof (intro impI)
    assume u: "?t = UINT64" and nd: "\<exists>b \<in> set (Value_val ?v). unat b < 48 \<or> 57 < unat b"
    from nd have "parseDigits (Value_val ?v) 0 = None" by (rule parseDigits_nondigit)
    then have "ToUint64 ?v = Inl (ErrCouldNotParse ?v)" by (simp add: ToUint64_def)
    with fail u show "\<exists>err. keyspaceID (V2 r) row = Inl (Error (ErrWrap err ''Non numerical value''))"
      by blast
  qed
  have ok: "?t = UINT64 \<longrightarrow> (\<forall>i. ToUint64 ?v = Inr i \<longrightarrow>
      (\<exists>bs. keyspaceID (V2 r) row = Inr bs \<and> length bs = 8 \<and> be_nat bs = unat i))"
  proof (intro impI allI)
    fix i assume "?t = UINT64" and "ToUint64 ?v = Inr i"
    then have "keyspaceID (V2 r) row = Inr (Uint64Key_Bytes i)"
      by (simp add: v2_keyspaceID_def ix)
    moreover have "length (Uint64Key_Bytes i) = 8" by (simp add: Uint64Key_Bytes_def)
    ultimately show "\<exists>bs. keyspaceID (V2 r) row = Inr bs \<and> length bs = 8 \<and> be_nat bs = unat i"
      using be_nat_Uint64Key_Bytes[of i] by blast
  qed
  have other: "?t \<noteq> BYTES \<and> ?t \<noteq> UINT64 \<longrightarrow>
      keyspaceID (V2 r) row = Inl (Error (ErrUnsupportedShardingColumnType ?t))"
    by (cases ?t) (simp_all add: v2_keyspaceID_def ix)
  have parse: "ToUint64 \<lparr> Value_typ = t, Value_val = [51, 48, 48] \<rparr> = Inr 300"
    by (simp add: ToUint64_def)
  have enc: "Uint64Key_Bytes 300 = [0, 0, 0, 0, 0, 0, 1, 0x2C]"
    by (simp add: Uint64Key_Bytes_def drop_bit_eq_div)
  from bytes fail nondigit ok other parse enc show ?thesis by blast
qed

theorem v2_keyspaceID_by_type_witness:
  "keyspaceID (V2 \<lparr> v2_keyspaceInfo = \<lparr> KeyspaceInfo_ShardingColumnName = ''id'',
                                        KeyspaceInfo_ShardingColumnType = UINT64 \<rparr>,
                     v2_shardingColumnIndex = 1 \<rparr>)
     [\<lparr> Value_typ = VarBinary, Value_val = [120] \<rparr>,
      \<lparr> Value_typ = Uint64, Value_val = [51, 48, 48] \<rparr>]
     = Inr [0, 0, 0, 0, 0, 0, 1, 0x2C]
   \<and> keyspaceID (V2 \<lparr> v2_keyspaceInfo = \<lparr> KeyspaceInfo_ShardingColumnName = ''id'',
                                          KeyspaceInfo_ShardingColumnType = BYTES \<rparr>,
                       v2_shardingColumnIndex = 0 \<rparr>)
       [\<lparr> Value_typ = VarBinary, Value_val = [0xAB] \<rparr>] = Inr [0xAB]
   \<and> keyspaceID (V2 \<lparr> v2_keyspaceInfo = \<lparr> KeyspaceInfo_ShardingColumnName = ''id'',
                                          KeyspaceInfo_ShardingColumnType = UINT64 \<rparr>,
                       v2_shardingColumnIndex = 0 \<rparr>)
       [\<lparr> Value_typ = VarBinary, Value_val = [120] \<rparr>]
       = Inl (Error (ErrWrap (ErrCouldNotParse \<lparr> Value_typ = VarBinary, Value_val = [120] \<rparr>)
                       ''Non numerical value''))"
  using v2_keyspaceID_by_type [of
      "\<lparr> v2_keyspaceInfo = \<lparr> KeyspaceInfo_ShardingColumnName = ''id'',
                              KeyspaceInfo_ShardingColumnType = UINT64 \<rparr>,
         v2_shardingColumnIndex = 1 \<rparr>"
      "[\<lparr> Value_typ = VarBinary, Value_val = [120] \<rparr>,
        \<lparr> Value_typ = Uint64, Value_val = [51, 48, 48] \<rparr>]"]
  by (simp add: v2_keyspaceID_def index_row_def ToUint64_def ToBytes_def Uint64Key_Bytes_def
      drop_bit_eq_div)

section \<open>keyspaceID of the vindex-based resolver\<close>

text \<open>
  C5, as amended. For a vindex-based (v3) resolver and a row that contains the sharding
  column, \<^verbatim>\<open>keyspaceID\<close> returns the bytes \<open>b\<close> exactly when the vindex's \<^verbatim>\<open>Map\<close> on
  the column's value returns the single destination \<^verbatim>\<open>DestinationKeyspaceID b\<close> with
  \<open>b\<close> non-empty. When \<^verbatim>\<open>Map\<close> fails, its error is returned unchanged. When
  \<^verbatim>\<open>Map\<close> returns a number of destinations other than one, the error is the one of
  line 209 with these destinations. When it returns a single destination that is of
  another variant or an empty keyspace id, the error is the one of line 213 with the
  value and that destination.
\<close>

theorem v3_keyspaceID_outcomes:
  assumes "0 \<le> v3_shardingColumnIndex r" and "v3_shardingColumnIndex r < int (length row)"
  shows "(keyspaceID (V3 r) row = Inr b \<longleftrightarrow>
            Vindex_Map (v3_vindex r) [row ! nat (v3_shardingColumnIndex r)]
              = Inr [DestinationKeyspaceID b] \<and> b \<noteq> [])
       \<and> (\<forall>err. Vindex_Map (v3_vindex r) [row ! nat (v3_shardingColumnIndex r)] = Inl err \<longrightarrow>
            keyspaceID (V3 r) row = Inl (Error err))
       \<and> (\<forall>ds. Vindex_Map (v3_vindex r) [row ! nat (v3_shardingColumnIndex r)] = Inr ds \<longrightarrow>
            length ds \<noteq> 1 \<longrightarrow>
            keyspaceID (V3 r) row = Inl (Error (ErrInvalidKeyspaceIds ds)))
       \<and> (\<forall>d. Vindex_Map (v3_vindex r) [row ! nat (v3_shardingColumnIndex r)] = Inr [d] \<longrightarrow>
            (\<forall>b. d = DestinationKeyspaceID b \<longrightarrow> b = []) \<longrightarrow>
            keyspaceID (V3 r) row
              = Inl (Error (ErrCouldNotMap (row ! nat (v3_shardingColumnIndex r)) d)))
       \<and> (\<forall>ds. Vindex_Map (v3_vindex r) [row ! nat (v3_shardingColumnIndex r)] = Inr ds \<longrightarrow>
            (\<forall>b. keyspaceID (V3 r) row \<noteq> Inr b) \<longrightarrow>
            (\<exists>f. keyspaceID (V3 r) row = Inl f
                \<and> namesOffender (row ! nat (v3_shardingColumnIndex r)) ds f))"
proof -
  let ?v = "row ! nat (v3_shardingColumnIndex r)"
  have ix: "index_row row (v3_shardingColumnIndex r) = Inr ?v"
    using assms by (simp add: index_row_def)
  have one: "length ds = 1 \<longleftrightarrow> (\<exists>d. ds = [d])" for ds :: "Destination list"
    by (cases ds) auto
  have err: "\<forall>err. Vindex_Map (v3_vindex r) [?v] = Inl err \<longrightarrow>
      keyspaceID (V3 r) row = Inl (Error err)"
    by (simp add: v3_keyspaceID_def ix)
  have many: "\<forall>ds. Vindex_Map (v3_vindex r) [?v] = Inr ds \<longrightarrow> length ds \<noteq> 1 \<longrightarrow>
      keyspaceID (V3 r) row = Inl (Error (ErrInvalidKeyspaceIds ds))"
    by (simp add: v3_keyspaceID_def ix)
  have good: "keyspaceID (V3 r) row = Inr b"
    if "Vindex_Map (v3_vindex r) [?v] = Inr [DestinationKeyspaceID b]" and "b \<noteq> []" for b
    using that by (simp add: v3_keyspaceID_def ix)
  have bad: "keyspaceID (V3 r) row = Inl (Error (ErrCouldNotMap ?v d))"
    if "Vindex_Map (v3_vindex r) [?v] = Inr [d]" and "\<forall>b. d = DestinationKeyspaceID b \<longrightarrow> b = []"
    for d
    using that by (cases d) (simp_all add: v3_keyspaceID_def ix)
  have iff: "keyspaceID (V3 r) row = Inr b \<longleftrightarrow>
      Vindex_Map (v3_vindex r) [?v] = Inr [DestinationKeyspaceID b] \<and> b \<noteq> []"
  proof
    assume ok: "keyspaceID (V3 r) row = Inr b"
    show "Vindex_Map (v3_vindex r) [?v] = Inr [DestinationKeyspaceID b] \<and> b \<noteq> []"
    proof (cases "Vindex_Map (v3_vindex r) [?v]")
      case (Inl e)
      with err ok show ?thesis by simp
    next
      case (Inr ds)
      show ?thesis
      proof (cases "length ds = 1")
        case False
        with many Inr ok show ?thesis by simp
      next
        case True
        then obtain d where d: "ds = [d]" using one by blast
        show ?thesis
        proof (cases "\<forall>b. d = DestinationKeyspaceID b \<longrightarrow> b = []")
          case True
          from bad[OF _ True] Inr d ok show ?thesis by simp
        next
          case False
          then obtain b' where b': "d = DestinationKeyspaceID b'" "b' \<noteq> []" by blast
          from good[of b'] Inr d b' ok show ?thesis by simp
        qed
      qed
    qed
  next
    assume "Vindex_Map (v3_vindex r) [?v] = Inr [DestinationKeyspaceID b] \<and> b \<noteq> []"
    then show "keyspaceID (V3 r) row = Inr b" using good by blast
  qed
  have named: "\<forall>ds. Vindex_Map (v3_vindex r) [?v] = Inr ds \<longrightarrow>
      (\<forall>b. keyspaceID (V3 r) row \<noteq> Inr b) \<longrightarrow>
      (\<exists>f. keyspaceID (V3 r) row = Inl f \<and> namesOffender ?v ds f)"
  proof (intro allI impI)
    fix ds
    assume m: "Vindex_Map (v3_vindex r) [?v] = Inr ds"
      and no: "\<forall>b. keyspaceID (V3 r) row \<noteq> Inr b"
    show "\<exists>f. keyspaceID (V3 r) row = Inl f \<and> namesOffender ?v ds f"
    proof (cases "length ds = 1")
      case False
      with many m show ?thesis by simp
    next
      case True
      then obtain d where d: "ds = [d]" using one by blast
      have "\<forall>b. d = DestinationKeyspaceID b \<longrightarrow> b = []"
      proof (intro allI impI)
        fix b assume "d = DestinationKeyspaceID b"
        with good[of b] m d no show "b = []" by auto
      qed
      from bad[OF _ this] m d show ?thesis by simp
    qed
  qed
  from iff err many bad named show ?thesis by blast
qed

theorem v3_keyspaceID_outcomes_witness:
  "keyspaceID (V3 \<lparr> v3_shardingColumnIndex = 1, v3_vindex = example_hash, v3_td = None \<rparr>)
     [\<lparr> Value_typ = VarBinary, Value_val = [120] \<rparr>,
      \<lparr> Value_typ = VarBinary, Value_val = [0xAB, 0xCD] \<rparr>] = Inr [0xAB, 0xCD]
   \<and> keyspaceID (V3 \<lparr> v3_shardingColumnIndex = 0, v3_vindex = example_lookup, v3_td = None \<rparr>)
       [\<lparr> Value_typ = VarBinary, Value_val = [120] \<rparr>]
       = Inl (Error (ErrCouldNotMap \<lparr> Value_typ = VarBinary, Value_val = [120] \<rparr> DestinationNone))
   \<and> keyspaceID (V3 \<lparr> v3_shardingColumnIndex = 0,
                       v3_vindex = \<lparr> Vindex_String = ''none'', Vindex_isLookup = False,
                                     Vindex_Map = (\<lambda>ids. Inr []) \<rparr>,
                       v3_td = None \<rparr>)
       [\<lparr> Value_typ = VarBinary, Value_val = [120] \<rparr>]
       = Inl (Error (ErrInvalidKeyspaceIds []))"
  using v3_keyspaceID_outcomes [of
      "\<lparr> v3_shardingColumnIndex = 1, v3_vindex = example_hash, v3_td = None \<rparr>"
      "[\<lparr> Value_typ = VarBinary, Value_val = [120] \<rparr>,
        \<lparr> Value_typ = VarBinary, Value_val = [0xAB, 0xCD] \<rparr>]" "[0xAB, 0xCD]"]
  by (simp add: v3_keyspaceID_def index_row_def example_hash_def example_lookup_def)

theorem v3_keyspaceID_counterexample:
  "keyspaceID (V3 \<lparr> v3_shardingColumnIndex = 0, v3_vindex = example_failing, v3_td = None \<rparr>)
     [\<lparr> Value_typ = VarBinary, Value_val = [120] \<rparr>] = Inl (Error (ErrExternal ''cannot map''))
   \<and> (\<forall>ds. \<not> namesOffender \<lparr> Value_typ = VarBinary, Value_val = [120] \<rparr> ds
               (Error (ErrExternal ''cannot map'')))
   \<and> keyspaceID (V3 \<lparr> v3_shardingColumnIndex = 1, v3_vindex = example_hash, v3_td = None \<rparr>)
       [\<lparr> Value_typ = VarBinary, Value_val = [120] \<rparr>] = Inl (Panic IndexOutOfRange)"
  by (simp add: v3_keyspaceID_def index_row_def example_failing_def)

section \<open>Value extraction\<close>

text \<open>
  C7, as amended. \<^verbatim>\<open>extractValueFromUpdate\<close> answers an assignment whose expression is
  not a value with the only-values error naming the assigned column, and hands a value
  to \<^verbatim>\<open>NewPlanValue\<close>; the values are exactly the \<^verbatim>\<open>SQLVal\<close>s of kind string,
  hex, integer and bind variable, so an arithmetic expression, a function call, a column
  reference and a subquery are none. In changed-vindex detection an assignment of
  another expression to a column of a column-vindex (the primary one included) always
  makes detection fail. The error is the only-values error of that assignment when it
  is the first assignment \<open>hit\<close> to its column \<open>vcol\<close> and the column-vindexes before
  \<open>vindex\<close> and the columns of \<open>vindex\<close> before \<open>vcol\<close> pass their checks; it is
  the only-values error of some assignment when all assignments to vindex columns hold
  other expressions.
\<close>

theorem extractValueFromUpdate_only_values:
  "(\<not> IsValue (UpdateExpr_Expr a) \<longrightarrow>
      extractValueFromUpdate env a col = Inl (ErrOnlyValues (UpdateExpr_Name a)))
   \<and> (IsValue (UpdateExpr_Expr a) \<longrightarrow>
        extractValueFromUpdate env a col = NewPlanValue env (UpdateExpr_Expr a))
   \<and> (IsValue e \<longleftrightarrow>
        (\<exists>s. e = SQLVal StrVal s \<or> e = SQLVal HexVal s \<or> e = SQLVal IntVal s
            \<or> e = SQLVal ValArg s))
   \<and> \<not> IsValue (BinaryExpr op l r) \<and> \<not> IsValue (FuncExpr f args) \<and> \<not> IsValue (ColName c)
   \<and> \<not> IsValue (Subquery q)
   \<and> (buildChangedVindexesValues env eupd upd cvs = Inr changed \<longrightarrow>
        (\<forall>cv \<in> set cvs. \<forall>c \<in> set (ColumnVindex_Columns cv). \<forall>a \<in> set (Update_Exprs upd).
           ColIdent_Equal env c (UpdateExpr_Name a) \<longrightarrow> IsValue (UpdateExpr_Expr a)))
   \<and> ((\<exists>cv \<in> set cvs. \<exists>c \<in> set (ColumnVindex_Columns cv). \<exists>a \<in> set (Update_Exprs upd).
          ColIdent_Equal env c (UpdateExpr_Name a) \<and> \<not> IsValue (UpdateExpr_Expr a))
       \<longrightarrow> (\<exists>err. buildChangedVindexesValues env eupd upd cvs = Inl err))
   \<and> (cvs = pre @ vindex # post
       \<and> ColumnVindex_Columns vindex = cpre @ vcol # cpost
       \<and> changedVindexesLoop env upd 0 pre [] = Inr before
       \<and> scanColumns env cpre (Update_Exprs upd) [] = Inr vals
       \<and> filter (\<lambda>a. ColIdent_Equal env vcol (UpdateExpr_Name a)) (Update_Exprs upd)
           = hit # others
       \<and> \<not> IsValue (UpdateExpr_Expr hit)
       \<longrightarrow> buildChangedVindexesValues env eupd upd cvs
             = Inl (ErrOnlyValues (UpdateExpr_Name hit))
           \<and> ColIdent_Equal env vcol (UpdateExpr_Name hit))
   \<and> ((\<exists>cv \<in> set cvs. \<exists>c \<in> set (ColumnVindex_Columns cv). \<exists>a \<in> set (Update_Exprs upd).
          ColIdent_Equal env c (UpdateExpr_Name a))
       \<and> (\<forall>cv \<in> set cvs. \<forall>c \<in> set (ColumnVindex_Columns cv). \<forall>a \<in> set (Update_Exprs upd).
            ColIdent_Equal env c (UpdateExpr_Name a) \<longrightarrow> \<not> IsValue (UpdateExpr_Expr a))
       \<longrightarrow> (\<exists>a \<in> set (Update_Exprs upd). \<not> IsValue (UpdateExpr_Expr a)
              \<and> buildChangedVindexesValues env eupd upd cvs
                  = Inl (ErrOnlyValues (UpdateExpr_Name a))))"
proof -
  have kinds: "IsValue e \<longleftrightarrow>
        (\<exists>s. e = SQLVal StrVal s \<or> e = SQLVal HexVal s \<or> e = SQLVal IntVal s
            \<or> e = SQLVal ValArg s)"
    by (cases e rule: IsValue.cases) auto
  have success: "buildChangedVindexesValues env eupd upd cvs = Inr changed \<longrightarrow>
        (\<forall>cv \<in> set cvs. \<forall>c \<in> set (ColumnVindex_Columns cv). \<forall>a \<in> set (Update_Exprs upd).
           ColIdent_Equal env c (UpdateExpr_Name a) \<longrightarrow> IsValue (UpdateExpr_Expr a))"
    for changed
  proof (intro impI ballI)
    fix cv c a
    assume ok: "buildChangedVindexesValues env eupd upd cvs = Inr changed"
      and in_cvs: "cv \<in> set cvs" "c \<in> set (ColumnVindex_Columns cv)" "a \<in> set (Update_Exprs upd)"
      and target: "ColIdent_Equal env c (UpdateExpr_Name a)"
    from ok have "changedVindexesLoop env upd 0 cvs [] = Inr changed"
      by (simp add: buildChangedVindexesValues_def)
    from changedVindexesLoop_success[OF this] in_cvs target
    obtain pv where "extractValueFromUpdate env a c = Inr pv" by blast
    then show "IsValue (UpdateExpr_Expr a)"
      by (simp add: extractValueFromUpdate_def split: if_splits)
  qed
  have fails: "(\<exists>cv \<in> set cvs. \<exists>c \<in> set (ColumnVindex_Columns cv). \<exists>a \<in> set (Update_Exprs upd).
          ColIdent_Equal env c (UpdateExpr_Name a) \<and> \<not> IsValue (UpdateExpr_Expr a))
       \<longrightarrow> (\<exists>err. buildChangedVindexesValues env eupd upd cvs = Inl err)"
  proof
    assume h: "\<exists>cv \<in> set cvs. \<exists>c \<in> set (ColumnVindex_Columns cv). \<exists>a \<in> set (Update_Exprs upd).
          ColIdent_Equal env c (UpdateExpr_Name a) \<and> \<not> IsValue (UpdateExpr_Expr a)"
    show "\<exists>err. buildChangedVindexesValues env eupd upd cvs = Inl err"
    proof (cases "buildChangedVindexesValues env eupd upd cvs")
      case (Inl err)
      then show ?thesis by blast
    next
      case (Inr ch)
      with success[of ch] h show ?thesis by blast
    qed
  qed
  have first: "cvs = pre @ vindex # post
       \<and> ColumnVindex_Columns vindex = cpre @ vcol # cpost
       \<and> changedVindexesLoop env upd 0 pre [] = Inr before
       \<and> scanColumns env cpre (Update_Exprs upd) [] = Inr vals
       \<and> filter (\<lambda>a. ColIdent_Equal env vcol (UpdateExpr_Name a)) (Update_Exprs upd)
           = hit # others
       \<and> \<not> IsValue (UpdateExpr_Expr hit)
       \<longrightarrow> buildChangedVindexesValues env eupd upd cvs
             = Inl (ErrOnlyValues (UpdateExpr_Name hit))
           \<and> ColIdent_Equal env vcol (UpdateExpr_Name hit)"
  proof (intro impI conjI)
    assume h: "cvs = pre @ vindex # post
       \<and> ColumnVindex_Columns vindex = cpre @ vcol # cpost
       \<and> changedVindexesLoop env upd 0 pre [] = Inr before
       \<and> scanColumns env cpre (Update_Exprs upd) [] = Inr vals
       \<and> filter (\<lambda>a. ColIdent_Equal env vcol (UpdateExpr_Name a)) (Update_Exprs upd)
           = hit # others
       \<and> \<not> IsValue (UpdateExpr_Expr hit)"
    then have "changedVindexesLoop env upd 0 (pre @ vindex # post) []
                 = Inl (ErrOnlyValues (UpdateExpr_Name hit))"
      using changedVindexesLoop_first_nonvalue[of env upd pre before vindex cpre vcol cpost vals
          hit others post]
      by simp
    with h show "buildChangedVindexesValues env eupd upd cvs
                   = Inl (ErrOnlyValues (UpdateExpr_Name hit))"
      by (simp add: buildChangedVindexesValues_def)
    from h have "hit \<in> set (filter (\<lambda>a. ColIdent_Equal env vcol (UpdateExpr_Name a))
                              (Update_Exprs upd))" by simp
    then show "ColIdent_Equal env vcol (UpdateExpr_Name hit)" by simp
  qed
  have failure: "(\<exists>cv \<in> set cvs. \<exists>c \<in> set (ColumnVindex_Columns cv). \<exists>a \<in> set (Update_Exprs upd).
          ColIdent_Equal env c (UpdateExpr_Name a))
       \<and> (\<forall>cv \<in> set cvs. \<forall>c \<in> set (ColumnVindex_Columns cv). \<forall>a \<in> set (Update_Exprs upd).
            ColIdent_Equal env c (UpdateExpr_Name a) \<longrightarrow> \<not> IsValue (UpdateExpr_Expr a))
       \<longrightarrow> (\<exists>a \<in> set (Update_Exprs upd). \<not> IsValue (UpdateExpr_Expr a)
              \<and> buildChangedVindexesValues env eupd upd cvs
                  = Inl (ErrOnlyValues (UpdateExpr_Name a)))"
  proof
    assume h: "(\<exists>cv \<in> set cvs. \<exists>c \<in> set (ColumnVindex_Columns cv). \<exists>a \<in> set (Update_Exprs upd).
          ColIdent_Equal env c (UpdateExpr_Name a))
       \<and> (\<forall>cv \<in> set cvs. \<forall>c \<in> set (ColumnVindex_Columns cv). \<forall>a \<in> set (Update_Exprs upd).
            ColIdent_Equal env c (UpdateExpr_Name a) \<longrightarrow> \<not> IsValue (UpdateExpr_Expr a))"
    from changedVindexesLoop_nonvalues[OF conjunct2[OF h] conjunct1[OF h], of 0 "[]"]
    show "\<exists>a \<in> set (Update_Exprs upd). \<not> IsValue (UpdateExpr_Expr a)
              \<and> buildChangedVindexesValues env eupd upd cvs
                  = Inl (ErrOnlyValues (UpdateExpr_Name a))"
      by (auto simp: buildChangedVindexesValues_def)
  qed
  have refuse: "\<not> IsValue (UpdateExpr_Expr a) \<longrightarrow>
      extractValueFromUpdate env a col = Inl (ErrOnlyValues (UpdateExpr_Name a))"
    by (simp add: extractValueFromUpdate_def)
  have accept: "IsValue (UpdateExpr_Expr a) \<longrightarrow>
      extractValueFromUpdate env a col = NewPlanValue env (UpdateExpr_Expr a)"
    by (simp add: extractValueFromUpdate_def)
  have n1: "\<not> IsValue (BinaryExpr op l r)" and n2: "\<not> IsValue (FuncExpr f args)"
    and n3: "\<not> IsValue (ColName c)" and n4: "\<not> IsValue (Subquery q)" by simp_all
  show ?thesis
    by (intro conjI)
      (rule refuse accept kinds n1 n2 n3 n4 success[of changed] fails first failure)+
qed

theorem extractValueFromUpdate_only_values_witness:
  "buildChangedVindexesValues (example_env True)
     \<lparr> eupd_Opcode = UpdateEqual, eupd_Keyspace = None, eupd_Query = [], eupd_Vindex = None,
       eupd_Values = [], eupd_ChangedVindexValues = [], eupd_Table = None,
       eupd_OwnedVindexQuery = [] \<rparr>
     (example_update [\<lparr> UpdateExpr_Name = ''name'',
                        UpdateExpr_Expr = BinaryExpr ''+'' (ColName ''name'') (SQLVal IntVal ''1'') \<rparr>])
     [user_index, name_user_map] = Inl (ErrOnlyValues ''name'')
   \<and> extractValueFromUpdate (example_env True)
       \<lparr> UpdateExpr_Name = ''name'', UpdateExpr_Expr = SQLVal ValArg '':v1'' \<rparr> ''name''
       = Inr \<lparr> PlanValue_Key = ''v1'', PlanValue_Value = None \<rparr>"
  using extractValueFromUpdate_only_values [where env = "example_env True"
      and a = "\<lparr> UpdateExpr_Name = ''name'',
                 UpdateExpr_Expr = BinaryExpr ''+'' (ColName ''name'') (SQLVal IntVal ''1'') \<rparr>"
      and col = "''name''" and e = "SQLVal ValArg '':v1''"
      and upd = "example_update [\<lparr> UpdateExpr_Name = ''name'',
                   UpdateExpr_Expr = BinaryExpr ''+'' (ColName ''name'') (SQLVal IntVal ''1'') \<rparr>]"
      and cvs = "[user_index, name_user_map]" and pre = "[user_index]"
      and vindex = name_user_map and post = "[]" and cpre = "[]" and vcol = "''name''"
      and cpost = "[]" and before = "[]" and vals = "[]"
      and hit = "\<lparr> UpdateExpr_Name = ''name'',
                  UpdateExpr_Expr = BinaryExpr ''+'' (ColName ''name'') (SQLVal IntVal ''1'') \<rparr>"
      and others = "[]"
      and eupd = "\<lparr> eupd_Opcode = UpdateEqual, eupd_Keyspace = None, eupd_Query = [],
                    eupd_Vindex = None, eupd_Values = [], eupd_ChangedVindexValues = [],
                    eupd_Table = None, eupd_OwnedVindexQuery = [] \<rparr>"]
  by (simp add: example_defs)

text \<open>
  The claim as first stated fails where another check comes first: a second assignment
  to the same column is met by the duplicate check before its value is looked at, and an
  assignment to the primary vindex ends detection before a later vindex is scanned.
\<close>

theorem only_values_order_counterexample:
  "buildUpdatePlan (example_env True)
     (example_update [\<lparr> UpdateExpr_Name = ''name'', UpdateExpr_Expr = SQLVal StrVal ''a'' \<rparr>,
                      \<lparr> UpdateExpr_Name = ''name'',
                        UpdateExpr_Expr = BinaryExpr ''+'' (ColName ''name'') (SQLVal IntVal ''1'') \<rparr>]) ()
     = Inl (ErrDuplicateSetValues ''name'')
   \<and> buildUpdatePlan (example_env True)
       (example_update [\<lparr> UpdateExpr_Name = ''id'', UpdateExpr_Expr = SQLVal IntVal ''1'' \<rparr>,
                        \<lparr> UpdateExpr_Name = ''name'',
                          UpdateExpr_Expr = BinaryExpr ''+'' (ColName ''name'') (SQLVal IntVal ''1'') \<rparr>]) ()
     = Inl (ErrPrimaryVindex ''user_index'')
   \<and> ColumnVindex_Columns name_user_map = [''name'']
   \<and> \<not> IsValue (BinaryExpr ''+'' (ColName ''name'') (SQLVal IntVal ''1''))"
  by (simp add: example_defs)

section \<open>The table definition of a vindex-based resolver\<close>

text \<open>
  What \<^verbatim>\<open>key_resolver.go\<close> itself fixes about the field \<^verbatim>\<open>td\<close>:
  \<^verbatim>\<open>keyspaceID\<close> does not read it, \<^verbatim>\<open>newV3ResolverFromColumnList\<close> leaves it nil,
  \<^verbatim>\<open>newV3ResolverFromTableDefinition\<close> stores its argument, and with a nil \<^verbatim>\<open>td\<close>
  the two primary-key accessors end in a nil dereference while \<^verbatim>\<open>shouldDebug\<close> is
  whatever \<^verbatim>\<open>debugTable\<close> does with a nil pointer.
\<close>

lemma v3_keyspaceID_td: "v3_keyspaceID (r \<lparr> v3_td := td \<rparr>) row = v3_keyspaceID r row"
proof -
  have a: "v3_vindex (r \<lparr> v3_td := td \<rparr>) = v3_vindex r" by simp
  have b: "v3_shardingColumnIndex (r \<lparr> v3_td := td \<rparr>) = v3_shardingColumnIndex r" by simp
  show ?thesis unfolding v3_keyspaceID_def a b ..
qed

lemma newV3ResolverFromColumnList_td:
  "newV3ResolverFromColumnList env keyspaceSchema name columns = Inr res \<Longrightarrow>
   \<exists>r. res = V3 r \<and> v3_td r = None"
  by (auto simp: newV3ResolverFromColumnList_def Let_def
      split: option.splits sum.splits list.splits if_splits)

lemma newV3ResolverFromTableDefinition_td:
  "newV3ResolverFromTableDefinition env keyspaceSchema td = Inr res \<Longrightarrow>
   \<exists>r. res = V3 r \<and> v3_td r = Some td"
  by (auto simp: newV3ResolverFromTableDefinition_def
      split: option.splits sum.splits list.splits if_splits prod.splits)

lemma v3_accessors_nil_td:
  "v3_td r = None \<Longrightarrow>
   primaryColumns (V3 r) = Inl (Panic NilDereference)
   \<and> primaryIndexes (V3 r) = Inl (Panic NilDereference)
   \<and> shouldDebug env (V3 r)
       = (case debugTable env None of Inl p \<Rightarrow> Inl (Panic p) | Inr b \<Rightarrow> Inr b)"
  by (simp add: v3_primaryColumns_def v3_primaryIndexes_def v3_shouldDebug_def)

end
